theory Spec2Isabelle
  imports Main "HOL-Library.Sublist" "HOL-Library.AList" "HOL-Library.Char_ord"
    "HOL-Library.List_Lexorder"
begin

section \<open>PilotR: the sandboxed file-and-process layer of \<open>server/main.py\<close>\<close>

text \<open>
  The development embeds class \<open>PilotRServer\<close> of \<open>server/main.py\<close>. The object's
  fields are a record, the operating system (files, current directory) is an explicit
  value threaded through every handler, and the library calls whose results the program
  cannot decide itself (the clock, \<open>shutil.which\<close>, \<open>Path.resolve\<close>, the child process,
  \<open>glob\<close>, \<open>csv\<close>, codecs) are fields of an environment record. Envelopes keep the error
  code, the \<open>details\<close> object and the \<open>data\<close> object; the free-text \<open>message\<close> and
  \<open>hints\<close> entries are left out.
\<close>

subsection \<open>Python strings\<close>

text \<open>\<open>s.startswith(p)\<close> and \<open>s.endswith(p)\<close>.\<close>

definition startswith :: "string \<Rightarrow> string \<Rightarrow> bool" where
  "startswith s p = prefix p s"

definition endswith :: "string \<Rightarrow> string \<Rightarrow> bool" where
  "endswith s p = prefix (rev p) (rev s)"

text \<open>\<open>sub in s\<close> on strings.\<close>

fun str_contains :: "string \<Rightarrow> string \<Rightarrow> bool" where
  "str_contains sub [] = (sub = [])"
| "str_contains sub (c # cs) = (prefix sub (c # cs) \<or> str_contains sub cs)"

text \<open>
  \<open>s.replace(old, new)\<close>: the non-overlapping occurrences of \<open>old\<close>, left to right.
  With an empty \<open>old\<close> Python puts \<open>new\<close> before every character and at the end.
\<close>

function str_replace :: "string \<Rightarrow> string \<Rightarrow> string \<Rightarrow> string" where
  "str_replace old new s =
     (if old = [] then concat (map (\<lambda>c. new @ [c]) s) @ new
      else if s = [] then []
      else if prefix old s then new @ str_replace old new (drop (length old) s)
      else hd s # str_replace old new (tl s))"
  by pat_completeness auto
termination
  by (relation "measure (\<lambda>(old, new, s). length s)") auto

declare str_replace.simps [simp del]

text \<open>\<open>s.split(sep)\<close> for a one-character separator.\<close>

fun str_split :: "char \<Rightarrow> string \<Rightarrow> string list" where
  "str_split sep [] = [[]]"
| "str_split sep (c # cs) =
     (if c = sep then [] # str_split sep cs
      else (case str_split sep cs of
              [] \<Rightarrow> [[c]]
            | l # ls \<Rightarrow> (c # l) # ls))"

text \<open>
  A string is the UTF-8 encoding of a Python \<open>str\<close>, one \<open>char\<close> per byte; a character
  outside ASCII is the two to four bytes of its encoding.

  \<open>s.strip()\<close> removes the white-space characters of \<open>str.isspace\<close> from both ends:
  U+0009 to U+000D, U+001C to U+0020, U+0085, U+00A0, U+1680, U+2000 to U+200A, U+2028,
  U+2029, U+202F, U+205F and U+3000. \<open>drop_leading\<close> removes, as long as there is one, a
  leading occurrence of one of the given byte sequences.
\<close>

definition unicode_spaces :: "string list" where
  "unicode_spaces =
     [[CHR 0x09], [CHR 0x0A], [CHR 0x0B], [CHR 0x0C], [CHR 0x0D],
      [CHR 0x1C], [CHR 0x1D], [CHR 0x1E], [CHR 0x1F], [CHR 0x20],
      [CHR 0xC2, CHR 0x85], [CHR 0xC2, CHR 0xA0], [CHR 0xE1, CHR 0x9A, CHR 0x80],
      [CHR 0xE2, CHR 0x80, CHR 0x80], [CHR 0xE2, CHR 0x80, CHR 0x81],
      [CHR 0xE2, CHR 0x80, CHR 0x82], [CHR 0xE2, CHR 0x80, CHR 0x83],
      [CHR 0xE2, CHR 0x80, CHR 0x84], [CHR 0xE2, CHR 0x80, CHR 0x85],
      [CHR 0xE2, CHR 0x80, CHR 0x86], [CHR 0xE2, CHR 0x80, CHR 0x87],
      [CHR 0xE2, CHR 0x80, CHR 0x88], [CHR 0xE2, CHR 0x80, CHR 0x89],
      [CHR 0xE2, CHR 0x80, CHR 0x8A], [CHR 0xE2, CHR 0x80, CHR 0xA8],
      [CHR 0xE2, CHR 0x80, CHR 0xA9], [CHR 0xE2, CHR 0x80, CHR 0xAF],
      [CHR 0xE2, CHR 0x81, CHR 0x9F], [CHR 0xE3, CHR 0x80, CHR 0x80]]"

function drop_leading :: "string list \<Rightarrow> string \<Rightarrow> string" where
  "drop_leading seqs s =
     (case find (\<lambda>q. q \<noteq> [] \<and> prefix q s) seqs of
        None \<Rightarrow> s
      | Some q \<Rightarrow> drop_leading seqs (drop (length q) s))"
  by pat_completeness auto
termination
proof (relation "measure (\<lambda>(seqs, s). length s)")
  show "wf (measure (\<lambda>(seqs, s). length s))" by simp
next
  fix seqs :: "string list" and s q :: string
  assume "find (\<lambda>q. q \<noteq> [] \<and> prefix q s) seqs = Some q"
  then have "q \<noteq> []" "prefix q s" by (auto simp: find_Some_iff)
  then have "s \<noteq> []" by auto
  with \<open>q \<noteq> []\<close> show "((seqs, drop (length q) s), (seqs, s)) \<in> measure (\<lambda>(seqs, s). length s)"
    by simp
qed

declare drop_leading.simps [simp del]

definition str_strip :: "string \<Rightarrow> string" where
  "str_strip s = rev (drop_leading (map rev unicode_spaces) (rev (drop_leading unicode_spaces s)))"

text \<open>
  \<open>s.lower()\<close> on ASCII letters; the bytes of the other characters are kept. The result
  is only searched for the ASCII words \<open>continuous\<close> and \<open>numeric\<close>, which no lowered
  character outside ASCII contributes to.
\<close>

definition char_lower :: "char \<Rightarrow> char" where
  "char_lower c =
     (let n = of_char c :: nat in if 65 \<le> n \<and> n \<le> 90 then char_of (n + 32) else c)"

definition str_lower :: "string \<Rightarrow> string" where
  "str_lower s = map char_lower s"

text \<open>
  \<open>s.splitlines()\<close>: a line ends at \<open>\r\n\<close>, \<open>\n\<close>, \<open>\v\<close>, \<open>\f\<close>, \<open>\r\<close>, \<open>\x1c\<close>, \<open>\x1d\<close>,
  \<open>\x1e\<close>, U+0085, U+2028 or U+2029; the terminators are dropped and no empty last line
  is produced.
\<close>

definition linebreaks :: "string list" where
  "linebreaks =
     [[CHR 0x0D, CHR 0x0A], [CHR 0x0A], [CHR 0x0B], [CHR 0x0C], [CHR 0x0D],
      [CHR 0x1C], [CHR 0x1D], [CHR 0x1E], [CHR 0xC2, CHR 0x85],
      [CHR 0xE2, CHR 0x80, CHR 0xA8], [CHR 0xE2, CHR 0x80, CHR 0xA9]]"

function splitlines_from :: "string \<Rightarrow> string \<Rightarrow> string list" where
  "splitlines_from acc s =
     (if s = [] then (if acc = [] then [] else [rev acc])
      else (case find (\<lambda>q. q \<noteq> [] \<and> prefix q s) linebreaks of
              Some q \<Rightarrow> rev acc # splitlines_from [] (drop (length q) s)
            | None \<Rightarrow> splitlines_from (hd s # acc) (tl s)))"
  by pat_completeness auto
termination
proof (relation "measure (\<lambda>(acc, s). length s)")
  show "wf (measure (\<lambda>(acc, s). length s))" by simp
next
  fix acc s q :: string
  assume "s \<noteq> []" "find (\<lambda>q. q \<noteq> [] \<and> prefix q s) linebreaks = Some q"
  then have "q \<noteq> []" by (auto simp: find_Some_iff)
  with \<open>s \<noteq> []\<close> show "(([], drop (length q) s), (acc, s)) \<in> measure (\<lambda>(acc, s). length s)"
    by simp
next
  fix acc s :: string
  assume "s \<noteq> []"
  then show "((hd s # acc, tl s), (acc, s)) \<in> measure (\<lambda>(acc, s). length s)" by simp
qed

declare splitlines_from.simps [simp del]

definition splitlines :: "string \<Rightarrow> string list" where
  "splitlines s = splitlines_from [] s"

text \<open>
  Reading a file in text mode with the default \<open>newline\<close> translates \<open>\r\n\<close> and \<open>\r\<close>
  to \<open>\n\<close>.
\<close>

fun universal_newlines :: "string \<Rightarrow> string" where
  "universal_newlines [] = []"
| "universal_newlines [c] = (if c = CHR 0x0D then [CHR 0x0A] else [c])"
| "universal_newlines (c # d # cs) =
     (if c = CHR 0x0D \<and> d = CHR 0x0A then CHR 0x0A # universal_newlines cs
      else if c = CHR 0x0D then CHR 0x0A # universal_newlines (d # cs)
      else c # universal_newlines (d # cs))"

text \<open>\<open>str(n)\<close> for an integer.\<close>

fun digits_of :: "nat \<Rightarrow> string" where
  "digits_of n =
     (if n < 10 then [char_of (48 + n)]
      else digits_of (n div 10) @ [char_of (48 + n mod 10)])"

declare digits_of.simps [simp del]

definition str_of_int :: "int \<Rightarrow> string" where
  "str_of_int i = (if i < 0 then CHR ''-'' # digits_of (nat (- i)) else digits_of (nat i))"

text \<open>\<open>sep.join(xs)\<close>.\<close>

fun str_join :: "string \<Rightarrow> string list \<Rightarrow> string" where
  "str_join sep [] = []"
| "str_join sep [x] = x"
| "str_join sep (x # y # ys) = x @ sep @ str_join sep (y # ys)"

subsection \<open>JSON values and Python's operations on them\<close>

datatype json =
    JNull
  | JBool bool
  | JNum int
  | JStr string
  | JArr "json list"
  | JObj "(string \<times> json) list"

datatype exn =
    TypeError
  | AttributeError
  | ValueError
  | RuntimeError
  | OSError
  | UnicodeDecodeError
  | CsvError

type_synonym dict = "(string \<times> json) list"

text \<open>
  A Python \<open>dict\<close> keeps insertion order: assigning to a present key replaces the value in
  place, assigning to a new key appends. This is \<^const>\<open>AList.update\<close>.
  \<open>d.update(kvs)\<close> assigns the pairs in order.
\<close>

definition dict_update :: "dict \<Rightarrow> dict \<Rightarrow> dict" where
  "dict_update d kvs = fold (\<lambda>(k, v) acc. AList.update k v acc) kvs d"

text \<open>
  \<open>x in c\<close> where \<open>x\<close> is a string and \<open>c\<close> a loaded JSON value: membership in a list,
  substring of a string, key of an object; \<open>TypeError\<close> for the values that are not
  iterable.
\<close>

definition py_in :: "string \<Rightarrow> json \<Rightarrow> exn + bool" where
  "py_in x c =
     (case c of
        JArr xs \<Rightarrow> Inr (JStr x \<in> set xs)
      | JStr s \<Rightarrow> Inr (str_contains x s)
      | JObj kvs \<Rightarrow> Inr (x \<in> set (map fst kvs))
      | _ \<Rightarrow> Inl TypeError)"

text \<open>\<open>c.append(x)\<close>: only a list has the method.\<close>

definition py_append :: "json \<Rightarrow> string \<Rightarrow> exn + json" where
  "py_append c x = (case c of JArr xs \<Rightarrow> Inr (JArr (xs @ [JStr x])) | _ \<Rightarrow> Inl AttributeError)"

text \<open>\<open>c.remove(x)\<close>, called only after \<open>x in c\<close> held: the first equal element goes.\<close>

definition py_remove :: "json \<Rightarrow> string \<Rightarrow> exn + json" where
  "py_remove c x = (case c of JArr xs \<Rightarrow> Inr (JArr (remove1 (JStr x) xs)) | _ \<Rightarrow> Inl AttributeError)"

subsection \<open>Paths and the file system\<close>

text \<open>
  A path is the list of the components of an absolute path; \<open>[]\<close> is the root. The file
  system maps the path handed to the operating system to what is found there.
  The text of a file is either the output of \<open>json.dump\<close> for a document (\<open>Json\<close>) or any
  text that \<open>json.load\<close> rejects (\<open>Raw\<close>).
\<close>

type_synonym path = "string list"

datatype content = Raw string | Json json

datatype node = File content | Dir

type_synonym filesys = "path \<Rightarrow> node option"

record world =
  files :: filesys
  cwd :: path

text \<open>\<open>str(p)\<close> of an absolute path.\<close>

definition path_str :: "path \<Rightarrow> string" where
  "path_str p = (if p = [] then ''/'' else concat (map (\<lambda>c. CHR ''/'' # c) p))"

text \<open>
  \<open>base / name\<close>: \<open>pathlib\<close> splits \<open>name\<close> at \<open>/\<close>, drops empty and \<open>.\<close> components and
  keeps \<open>..\<close>; an absolute \<open>name\<close> replaces \<open>base\<close>.
\<close>

definition parts :: "string \<Rightarrow> string list" where
  "parts s = filter (\<lambda>c. c \<noteq> [] \<and> c \<noteq> ''.'') (str_split CHR ''/'' s)"

definition path_join :: "path \<Rightarrow> string \<Rightarrow> path" where
  "path_join base name = (if startswith name ''/'' then parts name else base @ parts name)"

text \<open>\<open>PurePath.suffix\<close> and \<open>with_suffix\<close> on the last component (Python 3.12).\<close>

definition name_suffix :: "string \<Rightarrow> string" where
  "name_suffix name =
     (if CHR ''.'' \<notin> set name then []
      else (let ext = rev (takeWhile (\<lambda>c. c \<noteq> CHR ''.'') (rev name))
            in if ext \<noteq> [] \<and> Suc (length ext) < length name then CHR ''.'' # ext else []))"

definition with_suffix :: "path \<Rightarrow> string \<Rightarrow> exn + path" where
  "with_suffix p suf =
     (if p = [] then Inl ValueError
      else Inr (butlast p @ [take (length (last p) - length (name_suffix (last p))) (last p) @ suf]))"

definition fs_exists :: "filesys \<Rightarrow> path \<Rightarrow> bool" where
  "fs_exists fs p = (fs p \<noteq> None)"

definition fs_is_dir :: "filesys \<Rightarrow> path \<Rightarrow> bool" where
  "fs_is_dir fs p = (fs p = Some Dir)"

definition fs_is_file :: "filesys \<Rightarrow> path \<Rightarrow> bool" where
  "fs_is_file fs p = (case fs p of Some (File c) \<Rightarrow> True | _ \<Rightarrow> False)"

text \<open>
  Opening a file for writing creates or truncates it; it fails when the parent is not a
  directory or the path is a directory.
\<close>

definition can_open_w :: "filesys \<Rightarrow> path \<Rightarrow> bool" where
  "can_open_w fs p = (p \<noteq> [] \<and> fs_is_dir fs (butlast p) \<and> \<not> fs_is_dir fs p)"

text \<open>\<open>p.write_text(c)\<close>.\<close>

definition write_text :: "filesys \<Rightarrow> path \<Rightarrow> string \<Rightarrow> exn + filesys" where
  "write_text fs p c = (if can_open_w fs p then Inr (fs(p \<mapsto> File (Raw c))) else Inl OSError)"

text \<open>\<open>p.unlink()\<close>.\<close>

definition unlink :: "filesys \<Rightarrow> path \<Rightarrow> exn + filesys" where
  "unlink fs p = (if fs_is_file fs p then Inr (fs(p := None)) else Inl OSError)"

text \<open>
  \<open>src.replace(dst)\<close> and \<open>src.rename(dst)\<close>. The parent of \<open>dst\<close> must be a directory.
  A file moves over a missing or existing file, not over a directory. A directory moves
  with everything beneath it; its target must not exist (where the handlers rename, an
  existing target has been unlinked before) and must not lie inside it.
\<close>

definition fs_move :: "filesys \<Rightarrow> path \<Rightarrow> path \<Rightarrow> exn + filesys" where
  "fs_move fs src dst =
     (if dst = [] \<or> \<not> fs_is_dir fs (butlast dst) then Inl OSError
      else (case fs src of
              None \<Rightarrow> Inl OSError
            | Some (File c) \<Rightarrow>
                (if fs_is_dir fs dst then Inl OSError
                 else if src = dst then Inr fs
                 else Inr ((fs(src := None))(dst \<mapsto> File c)))
            | Some Dir \<Rightarrow>
                (if fs_exists fs dst \<or> prefix src dst then Inl OSError
                 else Inr (\<lambda>q. if prefix dst q then fs (src @ drop (length dst) q)
                               else if prefix src q then None
                               else fs q))))"

text \<open>\<open>p.mkdir(parents=True, exist_ok=True)\<close>: fails when \<open>p\<close> or an ancestor is a file.\<close>

definition mkdir_parents :: "filesys \<Rightarrow> path \<Rightarrow> exn + filesys" where
  "mkdir_parents fs p =
     (if list_ex (\<lambda>q. fs_is_file fs q) (prefixes p) then Inl OSError
      else Inr (\<lambda>q. if prefix q p then Some Dir else fs q))"

text \<open>\<open>p.mkdir(exist_ok=True)\<close>: the parent must be a directory and \<open>p\<close> not a file.\<close>

definition mkdir_exist_ok :: "filesys \<Rightarrow> path \<Rightarrow> exn + filesys" where
  "mkdir_exist_ok fs p =
     (if fs_is_dir fs p then Inr fs
      else if fs_is_file fs p \<or> p = [] \<or> \<not> fs_is_dir fs (butlast p) then Inl OSError
      else Inr (fs(p \<mapsto> Dir)))"

subsection \<open>The server object, the environment, envelopes\<close>

record server =
  state_dir :: "path option"
  state_file :: "path option"
  workdir :: "path option"
  primary_file :: string

text \<open>\<open>PilotRServer.__init__\<close>.\<close>

definition init_server :: server where
  "init_server = \<lparr>state_dir = None, state_file = None, workdir = None, primary_file = ''agent.R''\<rparr>"

datatype resolve_error = ResolveValueError | ResolveRuntimeError

datatype proc_outcome =
    Completed int string string
  | TimeoutExpired
  | LaunchFailed

text \<open>
  What can go wrong inside \<open>save_state\<close> beyond what the file system decides: opening
  the temporary file, \<open>json.dump\<close> stopping after a partial text, the final rename.
\<close>

datatype save_fault = NoFault | OpenFault | DumpFault string | ReplaceFault

record env =
  now :: string
  which :: "string \<Rightarrow> string option"
  expand_resolve :: "string \<Rightarrow> exn + path"
  resolve :: "path \<Rightarrow> resolve_error + path"
  subprocess_run :: "string list \<Rightarrow> int \<Rightarrow> world \<Rightarrow> proc_outcome \<times> filesys"
  save_fault :: save_fault
  glob :: "filesys \<Rightarrow> path \<Rightarrow> string \<Rightarrow> exn + path list"
  mtime :: "path \<Rightarrow> int"
  isoformat :: "int \<Rightarrow> string"
  json_text :: "json \<Rightarrow> string"
  decode :: "string \<Rightarrow> string \<Rightarrow> exn + string"
  b64encode :: "string \<Rightarrow> string"
  csv_sniff :: "string \<Rightarrow> exn + string"
  csv_reader :: "string \<Rightarrow> string \<Rightarrow> string list list \<times> exn option"

datatype err_code =
    NO_WORKDIR | WORKDIR_MISSING | DIR_NOT_FOUND | NOT_A_DIR | SET_DIR_ERROR
  | UNSAFE_PATH | FILE_EXISTS | FILE_NOT_FOUND | NOT_A_FILE | EMPTY_FILE | NO_RDATA
  | FILE_TOO_LARGE | DECODE_ERROR | READ_ERROR | PREVIEW_ERROR | LIST_ERROR
  | CREATE_ERROR | RENAME_ERROR | APPEND_ERROR | WRITE_ERROR | ANALYSIS_ERROR
  | R_NOT_FOUND | R_EXECUTION_ERROR | TIMEOUT | EXECUTION_ERROR
  | UNKNOWN_TOOL | INTERNAL_ERROR

datatype envelope = Ok dict | Err err_code dict

subsection \<open>State store\<close>

text \<open>
  \<open>load_state\<close>: the empty mapping when there is no state file, it does not exist, or
  reading or parsing it raises.
\<close>

definition load_state :: "server \<Rightarrow> filesys \<Rightarrow> json" where
  "load_state self fs =
     (case state_file self of
        None \<Rightarrow> JObj []
      | Some sf \<Rightarrow> (case fs sf of Some (File (Json j)) \<Rightarrow> j | _ \<Rightarrow> JObj []))"

text \<open>
  The \<open>try\<close> block of \<open>save_state\<close>: open the temporary file, dump, replace the target.
  The result says whether the block completed and gives the file system it left.
\<close>

definition save_try :: "save_fault \<Rightarrow> filesys \<Rightarrow> path \<Rightarrow> path \<Rightarrow> json \<Rightarrow> bool \<times> filesys" where
  "save_try fault fs temp_file sf state =
     (if fault = OpenFault \<or> \<not> can_open_w fs temp_file then (False, fs)
      else (let fs1 = fs(temp_file \<mapsto> File (Raw [])) in
        (case fault of
           DumpFault partial \<Rightarrow> (False, fs1(temp_file \<mapsto> File (Raw partial)))
         | _ \<Rightarrow>
            (let fs2 = fs1(temp_file \<mapsto> File (Json state)) in
               if fault = ReplaceFault then (False, fs2)
               else (case fs_move fs2 temp_file sf of
                       Inl e \<Rightarrow> (False, fs2)
                     | Inr fs3 \<Rightarrow> (True, fs3))))))"

text \<open>
  \<open>save_state\<close>. The handler of the \<open>try\<close> block removes the temporary file when it
  exists; that \<open>unlink\<close> is outside any \<open>try\<close>, so its failure leaves \<open>save_state\<close> as an
  exception (the first component of the result).
\<close>

definition save_state :: "env \<Rightarrow> server \<Rightarrow> filesys \<Rightarrow> json \<Rightarrow> exn option \<times> filesys" where
  "save_state e self fs state =
     (case state_file self of
        None \<Rightarrow> (None, fs)
      | Some sf \<Rightarrow>
         (case with_suffix sf ''.tmp'' of
            Inl x \<Rightarrow> (Some x, fs)
          | Inr temp_file \<Rightarrow>
             (case save_try (save_fault e) fs temp_file sf state of
                (True, fs') \<Rightarrow> (None, fs')
              | (False, fs') \<Rightarrow>
                 (if fs_exists fs' temp_file
                  then (case unlink fs' temp_file of
                          Inl x \<Rightarrow> (Some x, fs')
                        | Inr fs'' \<Rightarrow> (None, fs''))
                  else (None, fs')))))"

text \<open>
  The file systems a save without fault passes through, in order: after the temporary
  file is opened, after the document is written to it, after the rename. A process that
  dies during the save leaves one of these (or the starting one) behind.
\<close>

definition save_trace :: "filesys \<Rightarrow> path \<Rightarrow> path \<Rightarrow> json \<Rightarrow> filesys list" where
  "save_trace fs temp_file sf state =
     (if \<not> can_open_w fs temp_file then []
      else (let fs1 = fs(temp_file \<mapsto> File (Raw []));
                fs2 = fs1(temp_file \<mapsto> File (Json state))
            in (case fs_move fs2 temp_file sf of
                  Inl e \<Rightarrow> [fs1, fs2]
                | Inr fs3 \<Rightarrow> [fs1, fs2, fs3])))"

subsection \<open>Directory session and path guard\<close>

definition ensure_workdir_set :: "server \<Rightarrow> filesys \<Rightarrow> bool \<times> err_code option" where
  "ensure_workdir_set self fs =
     (case workdir self of
        None \<Rightarrow> (False, Some NO_WORKDIR)
      | Some w \<Rightarrow> (if \<not> fs_exists fs w then (False, Some WORKDIR_MISSING) else (True, None)))"

text \<open>
  \<open>is_safe_path\<close>. \<open>Path.resolve()\<close> raises \<open>ValueError\<close> or \<open>RuntimeError\<close>, the two
  exceptions the source catches; \<open>is_relative_to\<close> compares components.
\<close>

definition is_safe_path :: "env \<Rightarrow> server \<Rightarrow> path \<Rightarrow> bool" where
  "is_safe_path e self p =
     (case workdir self of
        None \<Rightarrow> False
      | Some w \<Rightarrow> (case resolve e p of Inl x \<Rightarrow> False | Inr resolved \<Rightarrow> prefix w resolved))"

subsection \<open>Interpreter runner\<close>

definition find_r_executable :: "env \<Rightarrow> string option" where
  "find_r_executable e =
     (case which e ''Rscript'' of
        Some rscript \<Rightarrow> Some rscript
      | None \<Rightarrow> (case which e ''R'' of Some r_exe \<Rightarrow> Some r_exe | None \<Rightarrow> None))"

text \<open>\<open>os.chdir(p)\<close> succeeds on a directory.\<close>

definition chdir :: "world \<Rightarrow> path \<Rightarrow> exn + world" where
  "chdir w p = (if fs_is_dir (files w) p then Inr (w\<lparr>cwd := p\<rparr>) else Inl OSError)"

text \<open>
  The two output streams: \<open>strip\<close>, \<open>split\<close> at newlines (nothing for an empty stream),
  then the filters.
\<close>

definition stream_lines :: "string \<Rightarrow> string list" where
  "stream_lines out = (if out = [] then [] else str_split CHR 0x0A (str_strip out))"

definition clean_stdout :: "string \<Rightarrow> string list" where
  "clean_stdout out =
     filter (\<lambda>line. line \<noteq> [] \<and> \<not> startswith line ''Loading required package:'')
       (stream_lines out)"

definition clean_stderr :: "string \<Rightarrow> string list" where
  "clean_stderr err =
     filter (\<lambda>line. line \<noteq> [] \<and> \<not> str_contains ''no visible binding'' line)
       (stream_lines err)"

definition output_fields :: "string \<Rightarrow> string \<Rightarrow> int \<Rightarrow> dict" where
  "output_fields out err returncode =
     [(''stdout'', JArr (map JStr (clean_stdout out))),
      (''stderr'', JArr (map JStr (clean_stderr err))),
      (''returncode'', JNum returncode)]"

text \<open>
  \<open>run_r_command\<close>. \<open>os.getcwd()\<close> raises when the current directory is gone.
  The directory is restored by the statement after \<open>subprocess.run\<close>; the two \<open>except\<close>
  clauses return without it.
\<close>

definition run_r_command :: "env \<Rightarrow> server \<Rightarrow> world \<Rightarrow> string list \<Rightarrow> int \<Rightarrow> envelope \<times> world" where
  "run_r_command e self w args timeout =
     (case find_r_executable e of
        None \<Rightarrow> (Err R_NOT_FOUND [], w)
      | Some r_exe \<Rightarrow>
         (if \<not> fs_is_dir (files w) (cwd w) then (Err EXECUTION_ERROR [], w)
          else (let original_cwd = cwd w in
            (case (case workdir self of None \<Rightarrow> Inr w | Some wd \<Rightarrow> chdir w wd) of
               Inl x \<Rightarrow> (Err EXECUTION_ERROR [], w)
             | Inr w1 \<Rightarrow>
                (case subprocess_run e (r_exe # args) timeout w1 of
                   (TimeoutExpired, fs2) \<Rightarrow> (Err TIMEOUT [], w1\<lparr>files := fs2\<rparr>)
                 | (LaunchFailed, fs2) \<Rightarrow> (Err EXECUTION_ERROR [], w1\<lparr>files := fs2\<rparr>)
                 | (Completed returncode out err, fs2) \<Rightarrow>
                    (case chdir (w1\<lparr>files := fs2\<rparr>) original_cwd of
                       Inl x \<Rightarrow> (Err EXECUTION_ERROR [], w1\<lparr>files := fs2\<rparr>)
                     | Inr w3 \<Rightarrow>
                        (if returncode \<noteq> 0
                         then (Err R_EXECUTION_ERROR (output_fields out err returncode), w3)
                         else (Ok (output_fields out err returncode), w3))))))))"

subsection \<open>Handlers\<close>

text \<open>
  The first lines of every handler that needs a session:
  \<open>ok, error = self.ensure_workdir_set()\<close>, \<open>if not ok: return {"ok": False, "error": error}\<close>;
  the rest of the handler then reads \<open>self.workdir\<close>.
\<close>

definition require_workdir ::
  "server \<Rightarrow> world \<Rightarrow> (path \<Rightarrow> envelope \<times> server \<times> world) \<Rightarrow> envelope \<times> server \<times> world" where
  "require_workdir self w body =
     (case ensure_workdir_set self (files w) of
        (False, error) \<Rightarrow>
          (Err (case error of Some c \<Rightarrow> c | None \<Rightarrow> INTERNAL_ERROR) [], self, w)
      | (True, error) \<Rightarrow>
          (case workdir self of
             Some wd \<Rightarrow> body wd
           | None \<Rightarrow> (Err INTERNAL_ERROR [], self, w)))"

text \<open>\<open>if not filename.endswith(('.R', '.r')): filename += '.R'\<close>.\<close>

definition ensure_R_extension :: "string \<Rightarrow> string" where
  "ensure_R_extension filename =
     (if \<not> (endswith filename ''.R'' \<or> endswith filename ''.r'') then filename @ ''.R''
      else filename)"

definition R_SCAFFOLD :: string where
  "R_SCAFFOLD = ''\<newline>''"

text \<open>
  \<open>handle_set_workdir\<close>. The three fields are assigned one after the other, with the
  \<open>mkdir\<close> of the state directory between the second and the third.
\<close>

definition handle_set_workdir ::
  "env \<Rightarrow> server \<Rightarrow> world \<Rightarrow> string \<Rightarrow> bool \<Rightarrow> envelope \<times> server \<times> world" where
  "handle_set_workdir e self w path create =
     (case expand_resolve e path of
        Inl x \<Rightarrow> (Err SET_DIR_ERROR [], self, w)
      | Inr wd \<Rightarrow>
         (if \<not> fs_exists (files w) wd \<and> \<not> create then (Err DIR_NOT_FOUND [], self, w)
          else if fs_exists (files w) wd \<and> \<not> fs_is_dir (files w) wd
               then (Err NOT_A_DIR [], self, w)
          else (case (if \<not> fs_exists (files w) wd then mkdir_parents (files w) wd
                      else Inr (files w)) of
                  Inl x \<Rightarrow> (Err SET_DIR_ERROR [], self, w)
                | Inr fs1 \<Rightarrow>
                   (let sd = wd @ [''.pilotr''];
                        self1 = self\<lparr>workdir := Some wd, state_dir := Some sd\<rparr>
                    in (case mkdir_exist_ok fs1 sd of
                          Inl x \<Rightarrow> (Err SET_DIR_ERROR [], self1, w\<lparr>files := fs1\<rparr>)
                        | Inr fs2 \<Rightarrow>
                           (let self2 = self1\<lparr>state_file := Some (sd @ [''state.json''])\<rparr> in
                              (case load_state self2 fs2 of
                                 JObj state \<Rightarrow>
                                   (case save_state e self2 fs2
                                           (JObj (dict_update state
                                              [(''workdir'', JStr (path_str wd)),
                                               (''primary_file'', JStr (primary_file self2)),
                                               (''updated_at'', JStr (now e))])) of
                                      (Some x, fs3) \<Rightarrow>
                                        (Err SET_DIR_ERROR [], self2, w\<lparr>files := fs3\<rparr>)
                                    | (None, fs3) \<Rightarrow>
                                        (Ok [(''workdir'', JStr (path_str wd)),
                                             (''state_dir'', JStr (path_str sd)),
                                             (''primary_file'', JStr (primary_file self2))],
                                         self2, w\<lparr>files := fs3\<rparr>))
                               | other \<Rightarrow> (Err SET_DIR_ERROR [], self2, w\<lparr>files := fs2\<rparr>))))))))"

text \<open>
  \<open>handle_get_state\<close> has no \<open>try\<close>: \<open>state.update\<close> on a loaded document that is not
  an object raises, and \<open>call_tool\<close> reports \<open>INTERNAL_ERROR\<close>.
\<close>

definition handle_get_state :: "env \<Rightarrow> server \<Rightarrow> world \<Rightarrow> envelope \<times> server \<times> world" where
  "handle_get_state e self w =
     (case (if state_file self \<noteq> None then load_state self (files w) else JObj []) of
        JObj state \<Rightarrow>
          (Ok (dict_update state
                 [(''workdir'', (case workdir self of Some wd \<Rightarrow> JStr (path_str wd) | None \<Rightarrow> JNull)),
                  (''primary_file'', JStr (primary_file self)),
                  (''r_available'', JBool (find_r_executable e \<noteq> None))]),
           self, w)
      | other \<Rightarrow> (Err INTERNAL_ERROR [], self, w))"

text \<open>
  The registration lines shared by \<open>handle_create_R_file\<close> and \<open>handle_write_R_code\<close>,
  on the loaded document: \<open>if "files" not in state: state["files"] = []\<close>,
  \<open>if filename not in state["files"]: state["files"].append(filename)\<close>,
  \<open>state["updated_at"] = ...\<close>. A document that is not an object raises at the first
  subscript.
\<close>

definition register_in_state :: "string \<Rightarrow> string \<Rightarrow> json \<Rightarrow> exn + json" where
  "register_in_state stamp filename state =
     (case state of
        JObj kvs \<Rightarrow>
          (let kvs1 = (if ''files'' \<notin> set (map fst kvs) then AList.update ''files'' (JArr []) kvs
                       else kvs)
           in (case map_of kvs1 ''files'' of
                 None \<Rightarrow> Inl TypeError
               | Some fl \<Rightarrow>
                  (case py_in filename fl of
                     Inl x \<Rightarrow> Inl x
                   | Inr True \<Rightarrow> Inr (JObj (AList.update ''updated_at'' (JStr stamp) kvs1))
                   | Inr False \<Rightarrow>
                      (case py_append fl filename of
                         Inl x \<Rightarrow> Inl x
                       | Inr fl' \<Rightarrow>
                          Inr (JObj (AList.update ''updated_at'' (JStr stamp)
                                      (AList.update ''files'' fl' kvs1)))))))
      | other \<Rightarrow> Inl TypeError)"

definition register_file :: "env \<Rightarrow> server \<Rightarrow> filesys \<Rightarrow> string \<Rightarrow> exn option \<times> filesys" where
  "register_file e self fs filename =
     (case register_in_state (now e) filename (load_state self fs) of
        Inl x \<Rightarrow> (Some x, fs)
      | Inr state \<Rightarrow> save_state e self fs state)"

definition handle_create_R_file ::
  "env \<Rightarrow> server \<Rightarrow> world \<Rightarrow> string \<Rightarrow> bool \<Rightarrow> bool \<Rightarrow> envelope \<times> server \<times> world" where
  "handle_create_R_file e self w filename0 overwrite scaffold =
     require_workdir self w (\<lambda>wd.
       let filename = ensure_R_extension filename0;
           filepath = path_join wd filename
       in if \<not> is_safe_path e self filepath then (Err UNSAFE_PATH [], self, w)
          else if fs_exists (files w) filepath \<and> \<not> overwrite then (Err FILE_EXISTS [], self, w)
          else (case write_text (files w) filepath (if scaffold then R_SCAFFOLD else []) of
                  Inl x \<Rightarrow> (Err CREATE_ERROR [], self, w)
                | Inr fs1 \<Rightarrow>
                   (case register_file e self fs1 filename of
                      (Some x, fs2) \<Rightarrow> (Err CREATE_ERROR [], self, w\<lparr>files := fs2\<rparr>)
                    | (None, fs2) \<Rightarrow>
                       (Ok [(''filename'', JStr filename),
                            (''filepath'', JStr (path_str filepath)),
                            (''scaffold_used'', JBool scaffold)],
                        self, w\<lparr>files := fs2\<rparr>))))"

text \<open>
  The state update of \<open>handle_rename_R_file\<close> on the loaded document:
  \<open>if "files" in state and old_name in state["files"]\<close> then remove and append;
  \<open>if state.get("primary_file") == old_name\<close> then re-point; then the timestamp.
  The second component says whether the primary file was re-pointed.
\<close>

definition rename_in_state :: "string \<Rightarrow> string \<Rightarrow> string \<Rightarrow> json \<Rightarrow> exn + json \<times> bool" where
  "rename_in_state stamp old_name new_name state =
     (case state of
        JObj kvs \<Rightarrow>
          (case (case map_of kvs ''files'' of
                   None \<Rightarrow> Inr kvs
                 | Some fl \<Rightarrow>
                    (case py_in old_name fl of
                       Inl x \<Rightarrow> Inl x
                     | Inr False \<Rightarrow> Inr kvs
                     | Inr True \<Rightarrow>
                        (case py_remove fl old_name of
                           Inl x \<Rightarrow> Inl x
                         | Inr fl1 \<Rightarrow>
                            (case py_append fl1 new_name of
                               Inl x \<Rightarrow> Inl x
                             | Inr fl2 \<Rightarrow> Inr (AList.update ''files'' fl2 kvs))))) of
             Inl x \<Rightarrow> Inl x
           | Inr kvs1 \<Rightarrow>
              (let repoint = (map_of kvs1 ''primary_file'' = Some (JStr old_name));
                   kvs2 = (if repoint then AList.update ''primary_file'' (JStr new_name) kvs1
                           else kvs1)
               in Inr (JObj (AList.update ''updated_at'' (JStr stamp) kvs2), repoint)))
      | other \<Rightarrow> Inl TypeError)"

definition handle_rename_R_file ::
  "env \<Rightarrow> server \<Rightarrow> world \<Rightarrow> string \<Rightarrow> string \<Rightarrow> bool \<Rightarrow> envelope \<times> server \<times> world" where
  "handle_rename_R_file e self w old_name0 new_name0 overwrite =
     require_workdir self w (\<lambda>wd.
       let old_name = ensure_R_extension old_name0;
           new_name = ensure_R_extension new_name0;
           old_path = path_join wd old_name;
           new_path = path_join wd new_name
       in if \<not> is_safe_path e self old_path \<or> \<not> is_safe_path e self new_path
          then (Err UNSAFE_PATH [], self, w)
          else if \<not> fs_exists (files w) old_path then (Err FILE_NOT_FOUND [], self, w)
          else if fs_exists (files w) new_path \<and> \<not> overwrite then (Err FILE_EXISTS [], self, w)
          else (case (if fs_exists (files w) new_path \<and> overwrite then unlink (files w) new_path
                      else Inr (files w)) of
                  Inl x \<Rightarrow> (Err RENAME_ERROR [], self, w)
                | Inr fs1 \<Rightarrow>
                   (case fs_move fs1 old_path new_path of
                      Inl x \<Rightarrow> (Err RENAME_ERROR [], self, w\<lparr>files := fs1\<rparr>)
                    | Inr fs2 \<Rightarrow>
                       (case rename_in_state (now e) old_name new_name (load_state self fs2) of
                          Inl x \<Rightarrow> (Err RENAME_ERROR [], self, w\<lparr>files := fs2\<rparr>)
                        | Inr (state, repoint) \<Rightarrow>
                           (let self1 = (if repoint then self\<lparr>primary_file := new_name\<rparr>
                                         else self)
                            in (case save_state e self1 fs2 state of
                                  (Some x, fs3) \<Rightarrow>
                                    (Err RENAME_ERROR [], self1, w\<lparr>files := fs3\<rparr>)
                                | (None, fs3) \<Rightarrow>
                                    (Ok [(''old_name'', JStr old_name),
                                         (''new_name'', JStr new_name)],
                                     self1, w\<lparr>files := fs3\<rparr>)))))))"

text \<open>
  \<open>handle_set_primary_file\<close> has no \<open>try\<close>: an exception after the guard lines reaches
  \<open>call_tool\<close>, which reports \<open>INTERNAL_ERROR\<close>.
\<close>

definition handle_set_primary_file ::
  "env \<Rightarrow> server \<Rightarrow> world \<Rightarrow> string \<Rightarrow> envelope \<times> server \<times> world" where
  "handle_set_primary_file e self w filename0 =
     require_workdir self w (\<lambda>wd.
       let filename = ensure_R_extension filename0;
           filepath = path_join wd filename
       in if \<not> is_safe_path e self filepath then (Err UNSAFE_PATH [], self, w)
          else if \<not> fs_exists (files w) filepath then (Err FILE_NOT_FOUND [], self, w)
          else (let self1 = self\<lparr>primary_file := filename\<rparr> in
                  (case load_state self1 (files w) of
                     JObj state \<Rightarrow>
                       (case save_state e self1 (files w)
                               (JObj (AList.update ''updated_at'' (JStr (now e))
                                        (AList.update ''primary_file'' (JStr filename) state))) of
                          (Some x, fs1) \<Rightarrow> (Err INTERNAL_ERROR [], self1, w\<lparr>files := fs1\<rparr>)
                        | (None, fs1) \<Rightarrow>
                            (Ok [(''primary_file'', JStr filename)], self1, w\<lparr>files := fs1\<rparr>))
                   | other \<Rightarrow> (Err INTERNAL_ERROR [], self1, w))))"

text \<open>\<open>if not filename: filename = self.primary_file\<close>, for an optional argument.\<close>

definition filename_or_primary :: "server \<Rightarrow> string option \<Rightarrow> string" where
  "filename_or_primary self filename =
     (case filename of
        None \<Rightarrow> primary_file self
      | Some f \<Rightarrow> (if f = [] then primary_file self else f))"

text \<open>\<open>p.read_text()\<close>: the text of a file, with the newline translation of text mode.\<close>

definition read_text :: "env \<Rightarrow> filesys \<Rightarrow> path \<Rightarrow> exn + string" where
  "read_text e fs p =
     (case fs p of
        Some (File (Raw s)) \<Rightarrow> Inr (universal_newlines s)
      | Some (File (Json j)) \<Rightarrow> Inr (universal_newlines (json_text e j))
      | other \<Rightarrow> Inl OSError)"

definition handle_append_R_code ::
  "env \<Rightarrow> server \<Rightarrow> world \<Rightarrow> string \<Rightarrow> string option \<Rightarrow> bool \<Rightarrow> envelope \<times> server \<times> world" where
  "handle_append_R_code e self w code filename0 ensure_trailing_newline =
     require_workdir self w (\<lambda>wd.
       let filename = ensure_R_extension (filename_or_primary self filename0);
           filepath = path_join wd filename
       in if \<not> is_safe_path e self filepath then (Err UNSAFE_PATH [], self, w)
          else if \<not> fs_exists (files w) filepath then (Err FILE_NOT_FOUND [], self, w)
          else (case read_text e (files w) filepath of
                  Inl x \<Rightarrow> (Err APPEND_ERROR [], self, w)
                | Inr existing_content \<Rightarrow>
                   (let code_to_append =
                          (if ensure_trailing_newline \<and> \<not> endswith code ''\<newline>''
                           then code @ ''\<newline>'' else code);
                        existing1 =
                          (if existing_content \<noteq> [] \<and> \<not> endswith existing_content ''\<newline>''
                           then existing_content @ ''\<newline>'' else existing_content);
                        new_content = existing1 @ code_to_append
                    in (case write_text (files w) filepath new_content of
                          Inl x \<Rightarrow> (Err APPEND_ERROR [], self, w)
                        | Inr fs1 \<Rightarrow>
                            (Ok [(''filename'', JStr filename),
                                 (''lines_appended'', JNum (int (length (splitlines code)))),
                                 (''total_lines'', JNum (int (length (splitlines new_content))))],
                             self, w\<lparr>files := fs1\<rparr>)))))"

definition handle_write_R_code ::
  "env \<Rightarrow> server \<Rightarrow> world \<Rightarrow> string \<Rightarrow> string option \<Rightarrow> bool \<Rightarrow> bool \<Rightarrow>
     envelope \<times> server \<times> world" where
  "handle_write_R_code e self w code filename0 overwrite use_scaffold_header =
     require_workdir self w (\<lambda>wd.
       let filename = ensure_R_extension (filename_or_primary self filename0);
           filepath = path_join wd filename
       in if \<not> is_safe_path e self filepath then (Err UNSAFE_PATH [], self, w)
          else if fs_exists (files w) filepath \<and> \<not> overwrite then (Err FILE_EXISTS [], self, w)
          else (let content0 = (if use_scaffold_header \<and> R_SCAFFOLD \<noteq> [] then R_SCAFFOLD @ code
                                else code);
                    content = (if content0 \<noteq> [] \<and> \<not> endswith content0 ''\<newline>''
                               then content0 @ ''\<newline>'' else content0)
                in (case write_text (files w) filepath content of
                      Inl x \<Rightarrow> (Err WRITE_ERROR [], self, w)
                    | Inr fs1 \<Rightarrow>
                       (case register_file e self fs1 filename of
                          (Some x, fs2) \<Rightarrow> (Err WRITE_ERROR [], self, w\<lparr>files := fs2\<rparr>)
                        | (None, fs2) \<Rightarrow>
                           (Ok [(''filename'', JStr filename),
                                (''lines_written'', JNum (int (length (splitlines content)))),
                                (''scaffold_used'', JBool use_scaffold_header)],
                            self, w\<lparr>files := fs2\<rparr>)))))"

text \<open>
  \<open>result["data"][k] = v\<close> on the envelope \<open>run_r_command\<close> returned, when it is a
  success.
\<close>

definition add_data :: "envelope \<Rightarrow> dict \<Rightarrow> envelope" where
  "add_data result kvs = (case result of Ok d \<Rightarrow> Ok (dict_update d kvs) | Err c d \<Rightarrow> Err c d)"

definition handle_run_R_script ::
  "env \<Rightarrow> server \<Rightarrow> world \<Rightarrow> string option \<Rightarrow> string list option \<Rightarrow> int \<Rightarrow> bool \<Rightarrow>
     envelope \<times> server \<times> world" where
  "handle_run_R_script e self w filename0 args timeout_sec save_rdata =
     require_workdir self w (\<lambda>wd.
       let filename = ensure_R_extension (filename_or_primary self filename0);
           filepath = path_join wd filename
       in if \<not> is_safe_path e self filepath then (Err UNSAFE_PATH [], self, w)
          else if \<not> fs_exists (files w) filepath then (Err FILE_NOT_FOUND [], self, w)
          else (let cmd_args = [if save_rdata then ''--save'' else ''--no-save'', path_str filepath]
                                 @ (case args of None \<Rightarrow> [] | Some xs \<Rightarrow> xs)
                in (case run_r_command e self w cmd_args timeout_sec of
                      (result, w1) \<Rightarrow>
                        (add_data result [(''filename'', JStr filename),
                                          (''save_rdata'', JBool save_rdata)],
                         self, w1))))"

definition handle_run_R_expression ::
  "env \<Rightarrow> server \<Rightarrow> world \<Rightarrow> string \<Rightarrow> int \<Rightarrow> envelope \<times> server \<times> world" where
  "handle_run_R_expression e self w expr timeout_sec =
     require_workdir self w (\<lambda>wd.
       (case run_r_command e self w [''-e'', expr, ''--slave''] timeout_sec of
          (result, w1) \<Rightarrow> (add_data result [(''expression'', JStr expr)], self, w1)))"

subsection \<open>Listing and reading files\<close>

record file_info =
  fi_name :: string
  fi_size :: int
  fi_mtime :: int
  fi_mtime_str :: string
  fi_extension :: string

text \<open>\<open>p.name\<close>, and the bytes and size of a file.\<close>

definition path_name :: "path \<Rightarrow> string" where
  "path_name p = (if p = [] then [] else last p)"

definition file_bytes :: "env \<Rightarrow> filesys \<Rightarrow> path \<Rightarrow> exn + string" where
  "file_bytes e fs p =
     (case fs p of
        Some (File (Raw s)) \<Rightarrow> Inr s
      | Some (File (Json j)) \<Rightarrow> Inr (json_text e j)
      | other \<Rightarrow> Inl OSError)"

definition file_entry :: "env \<Rightarrow> filesys \<Rightarrow> path \<Rightarrow> file_info" where
  "file_entry e fs item =
     \<lparr>fi_name = path_name item,
      fi_size = (case file_bytes e fs item of Inr s \<Rightarrow> int (length s) | Inl x \<Rightarrow> 0),
      fi_mtime = mtime e item,
      fi_mtime_str = isoformat e (mtime e item),
      fi_extension = name_suffix (path_name item)\<rparr>"

definition entry_json :: "file_info \<Rightarrow> json" where
  "entry_json f =
     JObj [(''name'', JStr (fi_name f)), (''size'', JNum (fi_size f)),
           (''mtime'', JNum (fi_mtime f)), (''mtime_str'', JStr (fi_mtime_str f)),
           (''extension'', JStr (fi_extension f))]"

text \<open>
  \<open>xs.sort(key=k, reverse=r)\<close>: the sort is stable, and with \<open>reverse=True\<close> equal
  elements still keep their order. \<open>xs[:limit]\<close> counts from the end for a negative
  \<open>limit\<close>.
\<close>

definition py_sort :: "('a \<Rightarrow> 'k::linorder) \<Rightarrow> bool \<Rightarrow> 'a list \<Rightarrow> 'a list" where
  "py_sort key reverse xs = (if reverse then rev (sort_key key (rev xs)) else sort_key key xs)"

definition py_slice_to :: "'a list \<Rightarrow> int \<Rightarrow> 'a list" where
  "py_slice_to xs limit =
     (if 0 \<le> limit then take (nat limit) xs else take (length xs - nat (- limit)) xs)"

definition handle_list_exports ::
  "env \<Rightarrow> server \<Rightarrow> world \<Rightarrow> string \<Rightarrow> string \<Rightarrow> bool \<Rightarrow> int \<Rightarrow> envelope \<times> server \<times> world" where
  "handle_list_exports e self w pattern sort_by descending limit =
     require_workdir self w (\<lambda>wd.
       (case glob e (files w) wd pattern of
          Inl x \<Rightarrow> (Err LIST_ERROR [], self, w)
        | Inr items \<Rightarrow>
           (let found = map (file_entry e (files w)) (filter (fs_is_file (files w)) items);
                sorted = (if sort_by = ''mtime'' then py_sort fi_mtime descending found
                          else if sort_by = ''size'' then py_sort fi_size descending found
                          else if sort_by = ''name'' then py_sort fi_name (\<not> descending) found
                          else found);
                shown = py_slice_to sorted limit
            in (Ok [(''files'', JArr (map entry_json shown)),
                    (''count'', JNum (int (length shown))),
                    (''workdir'', JStr (path_str wd))],
                self, w))))"

definition handle_read_export ::
  "env \<Rightarrow> server \<Rightarrow> world \<Rightarrow> string \<Rightarrow> int \<Rightarrow> bool \<Rightarrow> string \<Rightarrow> envelope \<times> server \<times> world" where
  "handle_read_export e self w name max_bytes as_text encoding =
     require_workdir self w (\<lambda>wd.
       let filepath = path_join wd name
       in if \<not> is_safe_path e self filepath then (Err UNSAFE_PATH [], self, w)
          else if \<not> fs_exists (files w) filepath then (Err FILE_NOT_FOUND [], self, w)
          else if \<not> fs_is_file (files w) filepath then (Err NOT_A_FILE [], self, w)
          else (case file_bytes e (files w) filepath of
                  Inl x \<Rightarrow> (Err READ_ERROR [], self, w)
                | Inr bytes \<Rightarrow>
                   (let file_size = int (length bytes)
                    in if file_size > max_bytes then (Err FILE_TOO_LARGE [], self, w)
                       else if as_text
                       then (case decode e encoding bytes of
                               Inl UnicodeDecodeError \<Rightarrow> (Err DECODE_ERROR [], self, w)
                             | Inl x \<Rightarrow> (Err READ_ERROR [], self, w)
                             | Inr decoded \<Rightarrow>
                                 (let content = universal_newlines decoded
                                  in (Ok [(''content'', JStr content),
                                          (''filename'', JStr name),
                                          (''size'', JNum file_size),
                                          (''lines'', JNum (int (length (splitlines content))))],
                                      self, w)))
                       else (Ok [(''content_base64'', JStr (b64encode e bytes)),
                                 (''filename'', JStr name),
                                 (''size'', JNum file_size)],
                             self, w))))"

subsection \<open>Tabular preview\<close>

text \<open>
  The loop \<open>for row in reader: total_rows += 1; if len(rows) < max_rows: rows.append(row)\<close>
  over the rows the reader yields after the header.
\<close>

fun preview_loop :: "int \<Rightarrow> string list list \<Rightarrow> string list list \<Rightarrow> int \<Rightarrow> string list list \<times> int" where
  "preview_loop max_rows [] rows total_rows = (rows, total_rows)"
| "preview_loop max_rows (row # rest) rows total_rows =
     preview_loop max_rows rest
       (if int (length rows) < max_rows then rows @ [row] else rows) (total_rows + 1)"

text \<open>
  \<open>handle_preview_table\<close>. \<open>csv_sniff\<close> stands for
  \<open>csv.Sniffer().sniff(csvfile.read(1024)).delimiter\<close> on the text of the file.
  The reader is an iterator: \<open>csv_reader\<close> gives the rows it yields and the exception
  that ends the iteration, if one does; the \<open>TypeError\<close> of \<open>csv.reader\<close> for a delimiter
  that is not a one-character string is such an exception before the first row. A return
  inside the \<open>with\<close> block leaves the rest of the file unread.
\<close>

definition handle_preview_table ::
  "env \<Rightarrow> server \<Rightarrow> world \<Rightarrow> string \<Rightarrow> string \<Rightarrow> int \<Rightarrow> envelope \<times> server \<times> world" where
  "handle_preview_table e self w name delimiter0 max_rows =
     require_workdir self w (\<lambda>wd.
       let filepath = path_join wd name
       in if \<not> is_safe_path e self filepath then (Err UNSAFE_PATH [], self, w)
          else if \<not> fs_exists (files w) filepath then (Err FILE_NOT_FOUND [], self, w)
          else (let delimiter1 = (if delimiter0 = [CHR 0x5C, CHR ''t''] \<or> delimiter0 = ''tab''
                                  then [CHR 0x09] else delimiter0)
                in (case file_bytes e (files w) filepath of
                      Inl x \<Rightarrow> (Err PREVIEW_ERROR [], self, w)
                    | Inr text \<Rightarrow>
                       (case (if delimiter1 = ''auto'' then csv_sniff e text
                              else Inr delimiter1) of
                          Inl x \<Rightarrow> (Err PREVIEW_ERROR [], self, w)
                        | Inr delimiter \<Rightarrow>
                           (case csv_reader e delimiter text of
                              ([], Some x) \<Rightarrow> (Err PREVIEW_ERROR [], self, w)
                            | ([], None) \<Rightarrow> (Err EMPTY_FILE [], self, w)
                            | (header # rest, failure) \<Rightarrow>
                               (if header = [] then (Err EMPTY_FILE [], self, w)
                                else if failure \<noteq> None then (Err PREVIEW_ERROR [], self, w)
                                else (case preview_loop max_rows rest [] 0 of
                                        (rows, total_rows) \<Rightarrow>
                                          (Ok [(''header'', JArr (map JStr header)),
                                               (''rows'', JArr (map (\<lambda>r. JArr (map JStr r)) rows)),
                                               (''total_rows'', JNum total_rows),
                                               (''displayed_rows'', JNum (int (length rows))),
                                               (''delimiter'', JStr delimiter),
                                               (''truncated'', JBool (total_rows > max_rows))],
                                           self, w))))))))"

subsection \<open>Style check\<close>

definition msg_assign :: string where
  \<open>msg_assign =
     ''Replace '' @ [CHR 0x27] @ ''<-'' @ [CHR 0x27] @ '' with '' @ [CHR 0x27] @ ''='' @
     [CHR 0x27] @ '' for consistency''\<close>

definition msg_theme_replace :: string where
  \<open>msg_theme_replace =
     ''Replace theme_gray() with theme_minimal(base_size=14)''\<close>

definition msg_theme_add :: string where
  \<open>msg_theme_add =
     ''Add theme_minimal(base_size=14) for better aesthetics''\<close>

definition msg_dpi :: string where
  \<open>msg_dpi =
     ''Add dpi=800 to ggsave() for publication quality''\<close>

definition msg_dims :: string where
  \<open>msg_dims =
     ''Specify width=5, height=4 in ggsave() for optimal dimensions''\<close>

definition msg_ggsave :: string where
  \<open>msg_ggsave =
     ''Add ggsave() with width=5, height=4, dpi=800''\<close>

definition msg_color :: string where
  \<open>msg_color =
     ''Add scale_color_brewer(palette='' @ [CHR 0x27] @ ''Set2'' @ [CHR 0x27] @
     '') for better categorical colors''\<close>

definition msg_fill_cont :: string where
  \<open>msg_fill_cont =
     ''Consider scale_fill_viridis_c() for continuous data''\<close>

definition msg_fill_cat :: string where
  \<open>msg_fill_cat =
     ''Add scale_fill_brewer(palette='' @ [CHR 0x27] @ ''Set2'' @ [CHR 0x27] @
     '') for categorical data''\<close>

definition msg_point :: string where
  \<open>msg_point =
     ''Set size=2.5 in geom_point() for better visibility''\<close>

definition msg_line :: string where
  \<open>msg_line =
     ''Set linewidth=0.8 in geom_line() for better visibility''\<close>

definition style_notes :: "string list" where
  \<open>style_notes =
    [''Following publication-ready ggplot2 best practices:'',
     ''- Muted color palettes (Set2, viridis)'',
     ''- Clear typography (base_size '' @ [CHR 0xE2, CHR 0x89, CHR 0xA5] @ '' 14pt)'',
     ''- Optimal export dimensions (5x4 inches)'',
     ''- High resolution (dpi=800)'']\<close>

text \<open>
  \<open>handle_ggplot_style_check\<close>. The tests read \<open>code\<close>, the replacements act on
  \<open>optimized_code\<close>. No statement of the \<open>try\<close> block raises on a string.
\<close>

definition style_optimizations :: "string \<Rightarrow> string list" where
  "style_optimizations code =
     (if str_contains ''<-'' code then [msg_assign] else [])
     @ (if str_contains ''theme_gray()'' code \<or> str_contains ''theme_grey()'' code
        then [msg_theme_replace]
        else if \<not> str_contains ''theme('' code \<and> str_contains ''ggplot('' code
        then [msg_theme_add] else [])
     @ (if str_contains ''ggsave('' code
        then (if \<not> str_contains ''dpi='' code then [msg_dpi] else [])
             @ (if \<not> str_contains ''width='' code \<or> \<not> str_contains ''height='' code
                then [msg_dims] else [])
        else if str_contains ''ggplot('' code then [msg_ggsave] else [])
     @ (if str_contains ''ggplot('' code \<and> str_contains ''color='' code
           \<and> \<not> str_contains ''scale_color'' code \<and> \<not> str_contains ''scale_colour'' code
        then [msg_color] else [])
     @ (if str_contains ''ggplot('' code \<and> str_contains ''fill='' code
           \<and> \<not> str_contains ''scale_fill'' code
        then (if str_contains ''continuous'' (str_lower code)
                 \<or> str_contains ''numeric'' (str_lower code)
              then [msg_fill_cont] else [msg_fill_cat])
        else [])
     @ (if str_contains ''geom_point('' code \<and> \<not> str_contains ''size='' code
        then [msg_point] else [])
     @ (if str_contains ''geom_line('' code
           \<and> \<not> str_contains ''linewidth='' code \<and> \<not> str_contains ''size='' code
        then [msg_line] else [])"

definition style_rewrite :: "string \<Rightarrow> string" where
  "style_rewrite code =
     (let c1 = (if str_contains ''<-'' code then str_replace ''<-'' ''='' code else code)
      in if str_contains ''theme_gray()'' code \<or> str_contains ''theme_grey()'' code
         then str_replace ''theme_grey()'' ''theme_minimal(base_size=14)''
                (str_replace ''theme_gray()'' ''theme_minimal(base_size=14)'' c1)
         else c1)"

definition handle_ggplot_style_check :: "string \<Rightarrow> envelope" where
  "handle_ggplot_style_check code =
     (let optimizations = style_optimizations code;
          optimized_code = style_rewrite code
      in Ok [(''original_code'', JStr code),
             (''optimized_code'', JStr (if optimizations \<noteq> [] then optimized_code else code)),
             (''optimizations'', JArr (map JStr optimizations)),
             (''style_notes'', JArr (map JStr style_notes)),
             (''improvements_found'', JNum (int (length optimizations)))])"

subsection \<open>Inspecting saved objects, locating the interpreter, listing scripts\<close>

definition r_code_load :: string where
  \<open>r_code_load =
     ''\<newline>'' @ ''        # Load saved workspace\<newline>'' @
     ''        load(".RData")\<newline>'' @ ''        \<newline>'' @
     ''        # Get all objects if none specified\<newline>'' @
     ''        all_objects <- ls()\<newline>'' @ ''        ''\<close>

definition r_code_requested_open :: string where
  \<open>r_code_requested_open =
     ''\<newline>'' @ ''            requested_objects <- c(''\<close>

definition r_code_requested_close :: string where
  \<open>r_code_requested_close =
     '')\<newline>'' @
     ''            missing <- setdiff(requested_objects, all_objects)\<newline>'' @
     ''            if (length(missing) > 0) {\<newline>'' @
     ''                cat("Warning: Objects not found:", paste(missing, collapse=", "), "'' @
     [CHR 0x5C] @ ''n")\<newline>'' @ ''            }\<newline>'' @
     ''            objects_to_inspect <- intersect(requested_objects, all_objects)\<newline>'' @
     ''            ''\<close>

definition r_code_all :: string where
  \<open>r_code_all =
     ''\<newline>'' @ ''            objects_to_inspect <- all_objects\<newline>'' @
     ''            ''\<close>

definition r_code_inspect_open :: string where
  \<open>r_code_inspect_open =
     ''\<newline>'' @ ''        # Inspect each object\<newline>'' @
     ''        for (obj_name in objects_to_inspect) {\<newline>'' @ ''            cat("'' @
     [CHR 0x5C] @ ''n=== Object:", obj_name, "==='' @ [CHR 0x5C] @ ''n")\<newline>'' @
     ''            obj <- get(obj_name)\<newline>'' @ ''            \<newline>'' @
     ''            # Basic info\<newline>'' @
     ''            cat("Class:", paste(class(obj), collapse=", "), "'' @ [CHR 0x5C] @
     ''n")\<newline>'' @ ''            cat("Type:", typeof(obj), "'' @ [CHR 0x5C] @
     ''n")\<newline>'' @ ''            \<newline>'' @
     ''            # Size info\<newline>'' @
     ''            if (is.data.frame(obj) || is.matrix(obj)) {\<newline>'' @
     ''                cat("Dimensions:", nrow(obj), "x", ncol(obj), "'' @ [CHR 0x5C] @
     ''n")\<newline>'' @ ''            } else if (is.list(obj)) {\<newline>'' @
     ''                cat("Length:", length(obj), "'' @ [CHR 0x5C] @ ''n")\<newline>'' @
     ''            } else if (is.vector(obj)) {\<newline>'' @
     ''                cat("Length:", length(obj), "'' @ [CHR 0x5C] @ ''n")\<newline>'' @
     ''            }\<newline>'' @ ''            \<newline>'' @
     ''            # Structure\<newline>'' @ ''            cat("'' @ [CHR 0x5C] @
     ''nStructure:'' @ [CHR 0x5C] @ ''n")\<newline>'' @ ''            str(obj, max.level=''\<close>

definition r_code_inspect_close :: string where
  \<open>r_code_inspect_close =
     '')\<newline>'' @ ''            \<newline>'' @
     ''            # Summary for data frames\<newline>'' @
     ''            if (is.data.frame(obj)) {\<newline>'' @ ''                cat("'' @
     [CHR 0x5C] @ ''nSummary:'' @ [CHR 0x5C] @ ''n")\<newline>'' @
     ''                print(summary(obj))\<newline>'' @ ''            }\<newline>'' @
     ''            \<newline>'' @
     ''            # First few elements for vectors\<newline>'' @
     ''            if (is.vector(obj) && !is.list(obj) && length(obj) > 0) {\<newline>'' @
     ''                cat("'' @ [CHR 0x5C] @ ''nFirst elements:'' @ [CHR 0x5C] @
     ''n")\<newline>'' @ ''                print(head(obj, 10))\<newline>'' @
     ''            }\<newline>'' @ ''        }\<newline>'' @ ''        ''\<close>

definition inspect_r_code :: "string list option \<Rightarrow> int \<Rightarrow> string" where
  \<open>inspect_r_code objects str_max_level =
     r_code_load
     @ (case objects of
          Some (x # xs) \<Rightarrow>
            r_code_requested_open
            @ str_join '', '' (map (\<lambda>obj. ''"'' @ obj @ ''"'') (x # xs))
            @ r_code_requested_close
        | other \<Rightarrow> r_code_all)
     @ r_code_inspect_open @ str_of_int str_max_level @ r_code_inspect_close\<close>

definition handle_inspect_R_objects ::
  "env \<Rightarrow> server \<Rightarrow> world \<Rightarrow> string list option \<Rightarrow> int \<Rightarrow> int \<Rightarrow> envelope \<times> server \<times> world" where
  "handle_inspect_R_objects e self w objects str_max_level timeout_sec =
     require_workdir self w (\<lambda>wd.
       if \<not> fs_exists (files w) (path_join wd ''.RData'') then (Err NO_RDATA [], self, w)
       else (case run_r_command e self w
                    [''-e'', inspect_r_code objects str_max_level, ''--slave''] timeout_sec of
               (result, w1) \<Rightarrow>
                 (add_data result
                    [(''objects_inspected'',
                      (case objects of
                         Some (x # xs) \<Rightarrow> JArr (map JStr (x # xs))
                       | other \<Rightarrow> JStr ''all''))],
                  self, w1)))"

definition handle_which_R :: "env \<Rightarrow> envelope" where
  "handle_which_R e =
     (let rscript = which e ''Rscript'';
          r_exe = which e ''R'';
          executable = (case rscript of Some r \<Rightarrow> Some r | None \<Rightarrow> r_exe);
          alternatives = (case rscript of Some r \<Rightarrow> [r] | None \<Rightarrow> [])
                         @ (case r_exe of Some r \<Rightarrow> [r] | None \<Rightarrow> [])
      in (case executable of
            Some x \<Rightarrow> Ok [(''executable'', JStr x), (''alternatives'', JArr (map JStr alternatives))]
          | None \<Rightarrow> Err R_NOT_FOUND []))"

text \<open>
  \<open>for item in self.workdir.glob(pattern): if item.is_file() and item.name not in r_files:
  r_files.append(item.name)\<close>.
\<close>

definition collect_names :: "filesys \<Rightarrow> path list \<Rightarrow> string list \<Rightarrow> string list" where
  "collect_names fs items r_files =
     fold (\<lambda>item acc. if fs_is_file fs item \<and> path_name item \<notin> set acc
                       then acc @ [path_name item] else acc) items r_files"

definition handle_list_R_files :: "env \<Rightarrow> server \<Rightarrow> world \<Rightarrow> envelope \<times> server \<times> world" where
  "handle_list_R_files e self w =
     require_workdir self w (\<lambda>wd.
       (case glob e (files w) wd ''*.R'' of
          Inl x \<Rightarrow> (Err LIST_ERROR [], self, w)
        | Inr upper \<Rightarrow>
           (case glob e (files w) wd ''*.r'' of
              Inl x \<Rightarrow> (Err LIST_ERROR [], self, w)
            | Inr lower \<Rightarrow>
               (Ok [(''files'', JArr (map JStr
                        (sort (collect_names (files w) lower (collect_names (files w) upper []))))),
                    (''primary_file'', JStr (primary_file self))],
                self, w))))"

subsection \<open>Dispatch\<close>

text \<open>
  \<open>call_tool\<close>: the operation catalog as a datatype, each request with the arguments of
  its handler (defaults filled in); any other name is \<open>Unknown_tool\<close>.
\<close>

datatype request =
    Set_workdir string bool
  | Get_state
  | Create_R_file string bool bool
  | Rename_R_file string string bool
  | Set_primary_file string
  | Append_R_code string "string option" bool
  | Write_R_code string "string option" bool bool
  | Run_R_script "string option" "string list option" int bool
  | Run_R_expression string int
  | List_exports string string bool int
  | Read_export string int bool string
  | Preview_table string string int
  | Ggplot_style_check string
  | Inspect_R_objects "string list option" int int
  | Which_R
  | List_R_files
  | Unknown_tool string

fun call_tool :: "env \<Rightarrow> server \<Rightarrow> world \<Rightarrow> request \<Rightarrow> envelope \<times> server \<times> world" where
  "call_tool e self w (Set_workdir path create) = handle_set_workdir e self w path create"
| "call_tool e self w Get_state = handle_get_state e self w"
| "call_tool e self w (Create_R_file filename overwrite scaffold) =
     handle_create_R_file e self w filename overwrite scaffold"
| "call_tool e self w (Rename_R_file old_name new_name overwrite) =
     handle_rename_R_file e self w old_name new_name overwrite"
| "call_tool e self w (Set_primary_file filename) = handle_set_primary_file e self w filename"
| "call_tool e self w (Append_R_code code filename nl) =
     handle_append_R_code e self w code filename nl"
| "call_tool e self w (Write_R_code code filename overwrite hdr) =
     handle_write_R_code e self w code filename overwrite hdr"
| "call_tool e self w (Run_R_script filename args timeout_sec save_rdata) =
     handle_run_R_script e self w filename args timeout_sec save_rdata"
| "call_tool e self w (Run_R_expression expr timeout_sec) =
     handle_run_R_expression e self w expr timeout_sec"
| "call_tool e self w (List_exports pattern sort_by descending limit) =
     handle_list_exports e self w pattern sort_by descending limit"
| "call_tool e self w (Read_export name max_bytes as_text encoding) =
     handle_read_export e self w name max_bytes as_text encoding"
| "call_tool e self w (Preview_table name delimiter max_rows) =
     handle_preview_table e self w name delimiter max_rows"
| "call_tool e self w (Ggplot_style_check code) = (handle_ggplot_style_check code, self, w)"
| "call_tool e self w (Inspect_R_objects objects str_max_level timeout_sec) =
     handle_inspect_R_objects e self w objects str_max_level timeout_sec"
| "call_tool e self w Which_R = (handle_which_R e, self, w)"
| "call_tool e self w List_R_files = handle_list_R_files e self w"
| "call_tool e self w (Unknown_tool name) = (Err UNKNOWN_TOOL [], self, w)"

text \<open>
  The requests of a connection are served one at a time, each to completion, on the
  server and the machine the previous one left.
\<close>

fun run_requests :: "env \<Rightarrow> server \<Rightarrow> world \<Rightarrow> request list \<Rightarrow> envelope list \<times> server \<times> world" where
  "run_requests e self w [] = ([], self, w)"
| "run_requests e self w (req # reqs) =
     (case call_tool e self w req of
        (r, self1, w1) \<Rightarrow>
          (case run_requests e self1 w1 reqs of
             (rs, self2, w2) \<Rightarrow> (r # rs, self2, w2)))"

subsection \<open>Observations\<close>

text \<open>The \<open>ok\<close> field of an envelope.\<close>

definition ok :: "envelope \<Rightarrow> bool" where
  "ok r = (case r of Ok d \<Rightarrow> True | Err c d \<Rightarrow> False)"


text \<open>
  The tracked file list of the persisted document: the value of \<open>files\<close> when the
  document is an object and the value a list, the empty list when the key is absent.
\<close>

definition tracked_names :: "server \<Rightarrow> filesys \<Rightarrow> json list option" where
  "tracked_names self fs =
     (case load_state self fs of
        JObj kvs \<Rightarrow>
          (case map_of kvs ''files'' of
             None \<Rightarrow> Some []
           | Some (JArr xs) \<Rightarrow> Some xs
           | Some other \<Rightarrow> None)
      | other \<Rightarrow> None)"

text \<open>
  The state store can be written: the state file is \<open>state.json\<close> in an existing
  directory, and neither it nor its sibling \<open>state.tmp\<close> is a directory.
\<close>

definition store_ready :: "server \<Rightarrow> filesys \<Rightarrow> bool" where
  "store_ready self fs =
     (case state_file self of
        None \<Rightarrow> False
      | Some sf \<Rightarrow>
          sf \<noteq> [] \<and> last sf = ''state.json'' \<and> fs_is_dir fs (butlast sf)
          \<and> \<not> fs_is_dir fs sf \<and> \<not> fs_is_dir fs (butlast sf @ [''state.tmp'']))"

section \<open>A concrete environment for the examples\<close>

text \<open>
  A file system without symbolic links: resolving a path removes its \<open>..\<close> components,
  and a component holding a NUL character is the \<open>ValueError\<close> of \<open>os.lstat\<close>.
\<close>

fun resolve_dots :: "path \<Rightarrow> path \<Rightarrow> path" where
  "resolve_dots acc [] = rev acc"
| "resolve_dots acc (c # cs) =
     (if c = ''..'' then resolve_dots (tl acc) cs else resolve_dots (c # acc) cs)"

definition lexical_resolve :: "path \<Rightarrow> resolve_error + path" where
  "lexical_resolve p =
     (if list_ex (\<lambda>c. CHR 0x00 \<in> set c) p then Inl ResolveValueError
      else Inr (resolve_dots [] p))"

definition sample_env :: env where
  "sample_env =
     \<lparr>now = ''2024-05-01T10:00:00'',
      which = (\<lambda>name. if name = ''Rscript'' then Some ''/usr/bin/Rscript'' else None),
      expand_resolve = (\<lambda>s. Inr (resolve_dots [] (parts s))),
      resolve = lexical_resolve,
      subprocess_run = (\<lambda>args timeout w. (Completed 0 [] [], files w)),
      save_fault = NoFault,
      glob = (\<lambda>fs d pat. Inr []),
      mtime = (\<lambda>p. 0),
      isoformat = (\<lambda>t. []),
      json_text = (\<lambda>j. []),
      decode = (\<lambda>enc s. Inr s),
      b64encode = (\<lambda>s. s),
      csv_sniff = (\<lambda>s. Inr '',''),
      csv_reader = (\<lambda>d s. (case d of
                              [c] \<Rightarrow> (map (str_split c) (splitlines s), None)
                            | other \<Rightarrow> ([], Some TypeError)))\<rparr>"

text \<open>A session rooted at \<open>/w\<close>.\<close>

definition sample_server :: server where
  "sample_server =
     \<lparr>state_dir = Some [''w'', ''.pilotr''],
      state_file = Some [''w'', ''.pilotr'', ''state.json''],
      workdir = Some [''w''],
      primary_file = ''agent.R''\<rparr>"

text \<open>
  A machine with the session directory \<open>/w\<close>, its state directory and document (which
  tracks \<open>agent.R\<close>), two scripts, a table and a second directory \<open>/home\<close>, the current
  one.
\<close>

definition sample_files :: filesys where
  \<open>sample_files =
     [[] \<mapsto> Dir,
      [''home''] \<mapsto> Dir,
      [''w''] \<mapsto> Dir,
      [''w'', ''.pilotr''] \<mapsto> Dir,
      [''w'', ''.pilotr'', ''state.json''] \<mapsto>
        File (Json (JObj [(''workdir'', JStr ''/w''),
                          (''primary_file'', JStr ''agent.R''),
                          (''updated_at'', JStr ''2024-04-30T09:00:00''),
                          (''files'', JArr [JStr ''agent.R''])])),
      [''w'', ''agent.R''] \<mapsto> File (Raw ''x = 1\<newline>''),
      [''w'', ''data.R''] \<mapsto> File (Raw ''d = read.csv("t.csv")\<newline>''),
      [''w'', ''t.csv''] \<mapsto> File (Raw ''a,b\<newline>1,2\<newline>3,4\<newline>5,6\<newline>'')]\<close>

definition sample_world :: world where
  "sample_world = \<lparr>files = sample_files, cwd = [''home'']\<rparr>"

section \<open>Properties\<close>

subsection \<open>Path guard\<close>

text \<open>
  Claim C4. For every path \<open>p\<close> and session, the path guard succeeds exactly when a root
  is configured, resolving \<open>p\<close> succeeds, and the resolved path is the root or lies beneath
  it. With no root the guard fails for every path, and a resolution error makes it fail.
\<close>

theorem is_safe_path_iff:
  "(is_safe_path e self p \<longleftrightarrow>
      (\<exists>r c. workdir self = Some r \<and> resolve e p = Inr c \<and> (c = r \<or> strict_prefix r c)))
   \<and> (workdir self = None \<longrightarrow> \<not> is_safe_path e self p)
   \<and> (\<forall>x. resolve e p = Inl x \<longrightarrow> \<not> is_safe_path e self p)"
  by (auto simp: is_safe_path_def strict_prefix_def split: option.splits sum.splits)

theorem is_safe_path_witness:
  "is_safe_path sample_env sample_server [''w'', ''plots'', ''a.R'']
   \<and> is_safe_path sample_env sample_server [''w'', ''sub'', ''..'']
   \<and> \<not> is_safe_path sample_env sample_server [''w'', ''..'', ''etc'', ''passwd.R'']
   \<and> \<not> is_safe_path sample_env init_server [''w'', ''a.R'']
   \<and> \<not> is_safe_path sample_env sample_server [''w'', [CHR 0x00]]"
  using is_safe_path_iff [of sample_env sample_server "[''w'', ''plots'', ''a.R'']"]
        is_safe_path_iff [of sample_env sample_server "[''w'', ''sub'', ''..'']"]
        is_safe_path_iff [of sample_env sample_server "[''w'', ''..'', ''etc'', ''passwd.R'']"]
        is_safe_path_iff [of sample_env init_server "[''w'', ''a.R'']"]
        is_safe_path_iff [of sample_env sample_server "[''w'', [CHR 0x00]]"]
  by (simp add: sample_env_def sample_server_def init_server_def lexical_resolve_def
        strict_prefix_def)

subsection \<open>Interpreter runner and the current directory\<close>

text \<open>
  On the path where the child process completes, the current directory is put back
  (provided the directory it was still exists).
\<close>

lemma run_r_command_completed_cwd:
  assumes "find_r_executable e = Some r_exe"
    and "fs_is_dir (files w) (cwd w)"
    and "workdir self = Some wd" "fs_is_dir (files w) wd"
    and "subprocess_run e (r_exe # args) timeout (w\<lparr>cwd := wd\<rparr>) = (Completed rc out err, fs')"
    and "fs_is_dir fs' (cwd w)"
  shows "cwd (snd (run_r_command e self w args timeout)) = cwd w"
  using assms by (simp add: run_r_command_def chdir_def Let_def)

text \<open>
  Claim C1 says that after \<open>run_r_command\<close> returns, with success or with
  \<open>R_EXECUTION_ERROR\<close>, \<open>TIMEOUT\<close> or \<open>EXECUTION_ERROR\<close>, the current working directory
  of the process is what it was before the call. The function does not do that on a
  timeout: whenever the interpreter is found, the session root is a directory and the
  child process runs into the timeout, \<open>run_r_command\<close> returns \<open>TIMEOUT\<close> and the
  current working directory is the session root, whatever it was before.
\<close>

theorem run_r_command_timeout_cwd:
  assumes "find_r_executable e = Some r_exe"
    and "fs_is_dir (files w) (cwd w)"
    and "workdir self = Some wd" "fs_is_dir (files w) wd"
    and "subprocess_run e (r_exe # args) timeout (w\<lparr>cwd := wd\<rparr>) = (TimeoutExpired, fs')"
  shows "run_r_command e self w args timeout = (Err TIMEOUT [], \<lparr>files = fs', cwd = wd\<rparr>)"
  using assms by (simp add: run_r_command_def chdir_def Let_def)

theorem run_r_command_timeout_witness:
  "run_r_command (sample_env\<lparr>subprocess_run := (\<lambda>args timeout w. (TimeoutExpired, files w))\<rparr>)
      sample_server sample_world [''-e'', ''Sys.sleep(600)'', ''--slave''] 5
     = (Err TIMEOUT [], \<lparr>files = sample_files, cwd = [''w'']\<rparr>)
   \<and> cwd sample_world = [''home'']"
  using run_r_command_timeout_cwd [of
      "sample_env\<lparr>subprocess_run := (\<lambda>args timeout w. (TimeoutExpired, files w))\<rparr>"
      "''/usr/bin/Rscript''" sample_world sample_server "[''w'']"
      "[''-e'', ''Sys.sleep(600)'', ''--slave'']" 5 sample_files]
  by (simp add: sample_env_def sample_server_def sample_world_def sample_files_def
        find_r_executable_def fs_is_dir_def)

subsection \<open>Which operations need a session\<close>

text \<open>
  Claim C3, as amended. Every operation other than \<open>set_workdir\<close>, \<open>get_state\<close>,
  \<open>which_R\<close> and \<open>ggplot_style_check\<close> first checks the session on the file system as
  it is at the call: with no working directory set it returns \<open>NO_WORKDIR\<close>, with a
  working directory that no longer exists it returns \<open>WORKDIR_MISSING\<close>, and in both
  cases it changes nothing. \<open>get_state\<close>, \<open>which_R\<close> and \<open>ggplot_style_check\<close> do not
  check the session: they never return \<open>NO_WORKDIR\<close> or \<open>WORKDIR_MISSING\<close> and they leave
  the session and the file system as they are; on a server with no session \<open>get_state\<close>
  succeeds and reports the working directory as null.
\<close>

theorem session_required:
  "((\<forall>p c. req \<noteq> Set_workdir p c) \<and> req \<noteq> Get_state \<and> req \<noteq> Which_R
      \<and> (\<forall>c. req \<noteq> Ggplot_style_check c) \<and> (\<forall>n. req \<noteq> Unknown_tool n) \<longrightarrow>
      (workdir self = None \<longrightarrow> call_tool e self w req = (Err NO_WORKDIR [], self, w))
      \<and> (\<forall>wd. workdir self = Some wd \<and> \<not> fs_exists (files w) wd \<longrightarrow>
             call_tool e self w req = (Err WORKDIR_MISSING [], self, w)))
   \<and> (req = Get_state \<or> req = Which_R \<or> (\<exists>c. req = Ggplot_style_check c) \<longrightarrow>
        (\<forall>d. fst (call_tool e self w req) \<noteq> Err NO_WORKDIR d
             \<and> fst (call_tool e self w req) \<noteq> Err WORKDIR_MISSING d)
        \<and> snd (call_tool e self w req) = (self, w))
   \<and> (workdir self = None \<and> state_file self = None \<longrightarrow>
        (\<exists>d. call_tool e self w Get_state = (Ok d, self, w) \<and> map_of d ''workdir'' = Some JNull))"
proof -
  have a: "(workdir self = None \<longrightarrow> call_tool e self w req = (Err NO_WORKDIR [], self, w))
      \<and> (\<forall>wd. workdir self = Some wd \<and> \<not> fs_exists (files w) wd \<longrightarrow>
             call_tool e self w req = (Err WORKDIR_MISSING [], self, w))"
    if h: "(\<forall>p c. req \<noteq> Set_workdir p c) \<and> req \<noteq> Get_state \<and> req \<noteq> Which_R
      \<and> (\<forall>c. req \<noteq> Ggplot_style_check c) \<and> (\<forall>n. req \<noteq> Unknown_tool n)"
  proof (cases req)
    case (Set_workdir p c)
    with h show ?thesis by blast
  next
    case Get_state
    with h show ?thesis by blast
  next
    case Which_R
    with h show ?thesis by blast
  next
    case (Ggplot_style_check c)
    with h show ?thesis by blast
  next
    case (Unknown_tool n)
    with h show ?thesis by blast
  qed (simp_all add: require_workdir_def ensure_workdir_set_def
        handle_create_R_file_def handle_rename_R_file_def handle_set_primary_file_def
        handle_append_R_code_def handle_write_R_code_def handle_run_R_script_def
        handle_run_R_expression_def handle_list_exports_def handle_read_export_def
        handle_preview_table_def handle_inspect_R_objects_def handle_list_R_files_def)
  have b: "(\<forall>d. fst (call_tool e self w req) \<noteq> Err NO_WORKDIR d
             \<and> fst (call_tool e self w req) \<noteq> Err WORKDIR_MISSING d)
        \<and> snd (call_tool e self w req) = (self, w)"
    if "req = Get_state \<or> req = Which_R \<or> (\<exists>c. req = Ggplot_style_check c)"
    using that
    by (auto simp: handle_get_state_def handle_which_R_def handle_ggplot_style_check_def Let_def
          split: json.splits option.splits)
  have c: "\<exists>d. call_tool e self w Get_state = (Ok d, self, w) \<and> map_of d ''workdir'' = Some JNull"
    if "workdir self = None \<and> state_file self = None"
    using that by (simp add: handle_get_state_def dict_update_def)
  from a b c show ?thesis by blast
qed

theorem session_required_witness:
  "call_tool sample_env init_server sample_world (Create_R_file ''a'' False True)
     = (Err NO_WORKDIR [], init_server, sample_world)
   \<and> call_tool sample_env init_server sample_world List_R_files
     = (Err NO_WORKDIR [], init_server, sample_world)
   \<and> call_tool sample_env (sample_server\<lparr>workdir := Some [''gone'']\<rparr>) sample_world
        (Run_R_expression ''1+1'' 60)
     = (Err WORKDIR_MISSING [], sample_server\<lparr>workdir := Some [''gone'']\<rparr>, sample_world)
   \<and> snd (call_tool sample_env init_server sample_world Which_R) = (init_server, sample_world)
   \<and> (\<exists>d. call_tool sample_env init_server sample_world Get_state = (Ok d, init_server, sample_world)
          \<and> map_of d ''workdir'' = Some JNull)"
  using session_required [of "Create_R_file ''a'' False True" init_server sample_env sample_world]
        session_required [of List_R_files init_server sample_env sample_world]
        session_required [of "Run_R_expression ''1+1'' 60"
          "sample_server\<lparr>workdir := Some [''gone'']\<rparr>" sample_env sample_world]
        session_required [of Which_R init_server sample_env sample_world]
  by (simp add: init_server_def sample_server_def sample_world_def sample_files_def fs_exists_def)

text \<open>
  Claim C3 as stated includes \<open>get_state\<close>, \<open>which_R\<close> and the style check among
  the operations that fail with \<open>NO_WORKDIR\<close>. On a server that has no working directory
  the three of them succeed.
\<close>

theorem session_not_required_counterexample:
  "call_tool sample_env init_server sample_world Get_state
     = (Ok [(''workdir'', JNull), (''primary_file'', JStr ''agent.R''), (''r_available'', JBool True)],
        init_server, sample_world)
   \<and> call_tool sample_env init_server sample_world Which_R
     = (Ok [(''executable'', JStr ''/usr/bin/Rscript''),
            (''alternatives'', JArr [JStr ''/usr/bin/Rscript''])],
        init_server, sample_world)
   \<and> (\<exists>d. call_tool sample_env init_server sample_world (Ggplot_style_check ''x <- 1'')
             = (Ok d, init_server, sample_world))
   \<and> workdir init_server = None"
  by (simp add: handle_get_state_def handle_which_R_def handle_ggplot_style_check_def
        init_server_def sample_env_def dict_update_def find_r_executable_def Let_def)

subsection \<open>Atomic save of the state document\<close>

lemma with_suffix_state_json:
  "with_suffix (sd @ [''state.json'']) ''.tmp'' = Inr (sd @ [''state.tmp''])"
  by (simp add: with_suffix_def name_suffix_def)

text \<open>
  Claim C6. \<open>save_state\<close> writes the document to the sibling \<open>state.tmp\<close> and renames it
  over \<open>state.json\<close>. For every file system and document: a save in which opening,
  dumping or renaming fails, and a save that ends in an exception, leave the entry of
  \<open>state.json\<close> exactly as it was; after any save the entry is either the old one or
  the complete new document; the two file systems a save passes through before the
  rename (what a crash at those points leaves behind) have the old entry; and a save
  without fault whose three steps are possible ends in the last of them.
\<close>

theorem save_state_atomic:
  assumes sf: "state_file self = Some (sd @ [''state.json''])"
  shows "(save_fault e \<noteq> NoFault \<longrightarrow>
            snd (save_state e self fs st) (sd @ [''state.json'']) = fs (sd @ [''state.json'']))
       \<and> (fst (save_state e self fs st) \<noteq> None \<longrightarrow>
            snd (save_state e self fs st) (sd @ [''state.json'']) = fs (sd @ [''state.json'']))
       \<and> (snd (save_state e self fs st) (sd @ [''state.json'']) = fs (sd @ [''state.json''])
            \<or> snd (save_state e self fs st) (sd @ [''state.json'']) = Some (File (Json st)))
       \<and> list_all (\<lambda>fs'. fs' (sd @ [''state.json'']) = fs (sd @ [''state.json'']))
            (take 2 (save_trace fs (sd @ [''state.tmp'']) (sd @ [''state.json'']) st))
       \<and> (save_fault e = NoFault
            \<and> length (save_trace fs (sd @ [''state.tmp'']) (sd @ [''state.json'']) st) = 3 \<longrightarrow>
            save_state e self fs st
              = (None, last (save_trace fs (sd @ [''state.tmp'']) (sd @ [''state.json'']) st)))"
proof -
  have ne: "sd @ [''state.tmp''] \<noteq> sd @ [''state.json'']" by simp
  show ?thesis
    using sf ne
    by (auto simp: save_state_def save_try_def save_trace_def with_suffix_state_json
          fs_move_def unlink_def fs_exists_def fs_is_file_def fs_is_dir_def can_open_w_def Let_def
        split: save_fault.splits sum.splits option.splits node.splits if_splits prod.splits)
qed

theorem save_state_witness:
  "snd (save_state (sample_env\<lparr>save_fault := DumpFault ''{wor''\<rparr>) sample_server sample_files
          (JObj [(''workdir'', JStr ''/w'')])) [''w'', ''.pilotr'', ''state.json'']
     = sample_files [''w'', ''.pilotr'', ''state.json'']
   \<and> snd (save_state sample_env sample_server sample_files
          (JObj [(''workdir'', JStr ''/w'')])) [''w'', ''.pilotr'', ''state.json'']
     = Some (File (Json (JObj [(''workdir'', JStr ''/w'')])))
   \<and> length (save_trace sample_files [''w'', ''.pilotr'', ''state.tmp'']
               [''w'', ''.pilotr'', ''state.json''] (JObj [(''workdir'', JStr ''/w'')])) = 3"
  using save_state_atomic [of sample_server "[''w'', ''.pilotr'']"
          "sample_env\<lparr>save_fault := DumpFault ''{wor''\<rparr>" sample_files
          "JObj [(''workdir'', JStr ''/w'')]"]
        save_state_atomic [of sample_server "[''w'', ''.pilotr'']" sample_env sample_files
          "JObj [(''workdir'', JStr ''/w'')]"]
  by (simp add: sample_env_def sample_server_def sample_files_def save_trace_def
        can_open_w_def fs_is_dir_def fs_move_def fs_is_file_def Let_def)

subsection \<open>Tabular preview\<close>

lemma preview_loop_eq:
  "preview_loop m rest rows tot =
     (rows @ take (nat (m - int (length rows))) rest, tot + int (length rest))"
proof (induction rest arbitrary: rows tot)
  case Nil
  then show ?case by simp
next
  case (Cons r rest)
  show ?case
  proof (cases "int (length rows) < m")
    case True
    then have "nat (m - int (length rows)) = Suc (nat (m - int (length rows) - 1))" by simp
    with True show ?thesis by (simp add: Cons.IH) (simp add: algebra_simps)
  next
    case False
    then show ?thesis by (simp add: Cons.IH)
  qed
qed

lemma take_min_length: "take (nat (min (int (length xs)) m)) xs = take (nat m) xs"
  by (cases "int (length xs) \<le> m") (simp_all add: min_def)

lemma preview_loop_bound:
  "length (fst (preview_loop m rest [] 0)) \<le> nat m"
  by (simp add: preview_loop_eq)

text \<open>
  Claim C8, as amended. For a file inside the session whose reader yields a non-empty
  header row and then \<open>N\<close> data rows, and every \<open>max_rows = M\<close> that is not negative: the
  preview returns the first \<open>min N M\<close> data rows (exactly \<open>M\<close> of them when \<open>M < N\<close>),
  \<open>total_rows = N\<close> and \<open>truncated = (N > M)\<close>. For a negative \<open>M\<close> it returns no rows,
  \<open>total_rows = N\<close> and \<open>truncated = true\<close>. The rows are counted in one pass over what
  the reader yields, and after any number of rows read at most \<open>M\<close> are retained. The
  session and the file system are unchanged. The delimiter is the one given, a tab for
  \<open>"tab"\<close> and \<open>"\t"\<close>, or the sniffed one for \<open>"auto"\<close>.
\<close>

theorem preview_table_rows:
  assumes session: "workdir self = Some wd" "fs_exists (files w) wd"
    and guard: "is_safe_path e self (path_join wd name)"
    and bytes: "file_bytes e (files w) (path_join wd name) = Inr tbl"
    and tab: "dl = (if sep = [CHR 0x5C, CHR ''t''] \<or> sep = ''tab''
                    then [CHR 0x09] else sep)"
    and sniff: "(if dl = ''auto'' then csv_sniff e tbl else Inr dl) = Inr delimiter"
    and rows: "csv_reader e delimiter tbl = (hdr # data, None)" "hdr \<noteq> []"
  shows "(0 \<le> M \<longrightarrow>
           handle_preview_table e self w name sep M =
             (Ok [(''header'', JArr (map JStr hdr)),
                  (''rows'', JArr (map (\<lambda>r. JArr (map JStr r))
                                    (take (nat (min (int (length data)) M)) data))),
                  (''total_rows'', JNum (int (length data))),
                  (''displayed_rows'', JNum (min (int (length data)) M)),
                  (''delimiter'', JStr delimiter),
                  (''truncated'', JBool (int (length data) > M))],
              self, w)
           \<and> int (length (take (nat (min (int (length data)) M)) data)) = min (int (length data)) M)
       \<and> (M < 0 \<longrightarrow>
           handle_preview_table e self w name sep M =
             (Ok [(''header'', JArr (map JStr hdr)),
                  (''rows'', JArr []),
                  (''total_rows'', JNum (int (length data))),
                  (''displayed_rows'', JNum 0),
                  (''delimiter'', JStr delimiter),
                  (''truncated'', JBool True)],
              self, w))
       \<and> (\<forall>k. length (fst (preview_loop M (take k data) [] 0)) \<le> nat M)"
proof -
  have ex: "fs_exists (files w) (path_join wd name)"
    using bytes by (auto simp: file_bytes_def fs_exists_def split: option.splits)
  have run: "handle_preview_table e self w name sep M =
             (Ok [(''header'', JArr (map JStr hdr)),
                  (''rows'', JArr (map (\<lambda>r. JArr (map JStr r)) (take (nat M) data))),
                  (''total_rows'', JNum (int (length data))),
                  (''displayed_rows'', JNum (int (length (take (nat M) data)))),
                  (''delimiter'', JStr delimiter),
                  (''truncated'', JBool (int (length data) > M))],
              self, w)"
    using session guard bytes ex sniff rows
    unfolding handle_preview_table_def require_workdir_def ensure_workdir_set_def Let_def tab [symmetric]
    by (simp add: preview_loop_eq)
  have len: "int (length (take (nat M) data)) = min (int (length data)) M" if "0 \<le> M"
    using that by (auto simp: min_def)
  have neg: "take (nat M) data = []" "int (length data) > M" if "M < 0"
    using that by auto
  show ?thesis
    using run len neg by (auto simp: take_min_length preview_loop_bound)
qed

theorem preview_table_witness:
  "handle_preview_table sample_env sample_server sample_world ''t.csv'' '','' 2 =
     (Ok [(''header'', JArr [JStr ''a'', JStr ''b'']),
          (''rows'', JArr [JArr [JStr ''1'', JStr ''2''], JArr [JStr ''3'', JStr ''4'']]),
          (''total_rows'', JNum 3),
          (''displayed_rows'', JNum 2),
          (''delimiter'', JStr '',''),
          (''truncated'', JBool True)],
      sample_server, sample_world)"
proof -
  let ?tbl = "''a,b\<newline>1,2\<newline>3,4\<newline>5,6\<newline>''"
  have session: "workdir sample_server = Some [''w'']" "fs_exists (files sample_world) [''w'']"
    by code_simp+
  have guard: "is_safe_path sample_env sample_server (path_join [''w''] ''t.csv'')" by code_simp
  have bytes: "file_bytes sample_env (files sample_world) (path_join [''w''] ''t.csv'') = Inr ?tbl"
    by code_simp
  have tab: "'','' = (if '','' = [CHR 0x5C, CHR ''t''] \<or> '','' = ''tab'' then [CHR 0x09] else '','')"
    by simp
  have sniff: "(if '','' = ''auto'' then csv_sniff sample_env ?tbl else Inr '','') = Inr '',''"
    by simp
  have rows: "csv_reader sample_env '','' ?tbl
      = ([''a'', ''b''] # [[''1'', ''2''], [''3'', ''4''], [''5'', ''6'']], None)"
    "[''a'', ''b''] \<noteq> []"
    by code_simp+
  from preview_table_rows [OF session guard bytes tab sniff rows, of 2]
  show ?thesis by simp
qed

text \<open>
  Claim C8 as stated covers every \<open>max_rows\<close>. With \<open>max_rows = -1\<close> on a table of three
  data rows the preview returns no rows and reports \<open>displayed_rows = 0\<close>, which is
  neither the first \<open>min 3 (-1)\<close> rows nor exactly \<open>M\<close> rows.
\<close>

theorem preview_table_negative_counterexample:
  "fst (handle_preview_table sample_env sample_server sample_world ''t.csv'' '','' (- 1)) =
     Ok [(''header'', JArr [JStr ''a'', JStr ''b'']),
         (''rows'', JArr []),
         (''total_rows'', JNum 3),
         (''displayed_rows'', JNum 0),
         (''delimiter'', JStr '',''),
         (''truncated'', JBool True)]
   \<and> min (3 :: int) (- 1) \<noteq> 0"
  by code_simp

subsection \<open>Style check\<close>

lemma str_replace_absent:
  "old \<noteq> [] \<Longrightarrow> \<not> str_contains old s \<Longrightarrow> str_replace old new s = s"
proof (induction s)
  case Nil
  then show ?case by (simp add: str_replace.simps)
next
  case (Cons c cs)
  then show ?case by (subst str_replace.simps) simp
qed

lemma style_rewrite_absent:
  "\<not> str_contains ''<-'' code \<Longrightarrow> \<not> str_contains ''theme_gray()'' code \<Longrightarrow>
   \<not> str_contains ''theme_grey()'' code \<Longrightarrow> style_rewrite code = code"
  by (simp add: style_rewrite_def)

text \<open>
  Claim C10. The style check is total and pure: for every code string it returns a
  success envelope and leaves the session and the file system alone; the field
  \<open>original_code\<close> is the input; and when none of the patterns it substitutes (\<open><-\<close>,
  \<open>theme_gray()\<close>, \<open>theme_grey()\<close>) occurs in the input, \<open>optimized_code\<close> is the input.
\<close>

theorem style_check_total_pure:
  "\<exists>d. call_tool e self w (Ggplot_style_check code) = (Ok d, self, w)
       \<and> map_of d ''original_code'' = Some (JStr code)
       \<and> (\<not> str_contains ''<-'' code \<and> \<not> str_contains ''theme_gray()'' code
            \<and> \<not> str_contains ''theme_grey()'' code
            \<longrightarrow> map_of d ''optimized_code'' = Some (JStr code))"
  by (simp add: handle_ggplot_style_check_def Let_def style_rewrite_absent)

theorem style_check_witness:
  "\<not> str_contains ''<-'' ''p = ggplot(d)'' \<and> \<not> str_contains ''theme_gray()'' ''p = ggplot(d)''
   \<and> \<not> str_contains ''theme_grey()'' ''p = ggplot(d)''
   \<and> (\<exists>d. call_tool sample_env init_server \<lparr>files = Map.empty, cwd = []\<rparr>
               (Ggplot_style_check ''p = ggplot(d)'')
              = (Ok d, init_server, \<lparr>files = Map.empty, cwd = []\<rparr>)
            \<and> map_of d ''original_code'' = Some (JStr ''p = ggplot(d)'')
            \<and> map_of d ''optimized_code'' = Some (JStr ''p = ggplot(d)''))"
  using style_check_total_pure [of sample_env init_server "\<lparr>files = Map.empty, cwd = []\<rparr>" "''p = ggplot(d)''"]
  by simp

subsection \<open>Saving, script paths and the state document\<close>

text \<open>A save on a ready store, without fault, replaces the document and removes \<open>state.tmp\<close>.\<close>

lemma save_state_ok:
  assumes "state_file self = Some (sd @ [''state.json''])" "save_fault e = NoFault"
    and "fs_is_dir fs sd" "\<not> fs_is_dir fs (sd @ [''state.tmp''])"
    and "\<not> fs_is_dir fs (sd @ [''state.json''])"
  shows "save_state e self fs st =
           (None, (fs(sd @ [''state.tmp''] := None))(sd @ [''state.json''] \<mapsto> File (Json st)))"
proof -
  have ne: "sd @ [''state.tmp''] \<noteq> sd @ [''state.json'']" "sd \<noteq> sd @ [''state.tmp'']" by simp_all
  show ?thesis
    using assms ne
    by (auto simp: save_state_def save_try_def with_suffix_state_json fs_move_def
          fs_is_dir_def can_open_w_def Let_def fun_upd_twist)
qed

lemma store_ready_sd:
  assumes "store_ready self fs"
  obtains sd where "state_file self = Some (sd @ [''state.json''])"
    and "fs_is_dir fs sd" "\<not> fs_is_dir fs (sd @ [''state.tmp''])"
    and "\<not> fs_is_dir fs (sd @ [''state.json''])"
proof -
  from assms obtain sf where sf: "state_file self = Some sf" "sf \<noteq> []" "last sf = ''state.json''"
      "fs_is_dir fs (butlast sf)" "\<not> fs_is_dir fs sf" "\<not> fs_is_dir fs (butlast sf @ [''state.tmp''])"
    by (auto simp: store_ready_def split: option.splits)
  have eq: "sf = butlast sf @ [''state.json'']"
    using sf(2,3) append_butlast_last_id [of sf] by simp
  show ?thesis
    using that [of "butlast sf"] sf eq by metis
qed

text \<open>
  The path of a script, \<open>workdir / name\<close> with the extension ensured, ends in a component
  with the extension \<open>.R\<close> or \<open>.r\<close>; it is neither the state file nor its temporary
  sibling.
\<close>

lemma str_split_not_Nil [simp]: "str_split c s \<noteq> []"
  by (induction s) (auto split: list.splits)

lemma str_split_no_sep: "c \<notin> set u \<Longrightarrow> str_split c u = [u]"
  by (induction u) auto

lemma str_split_append:
  "c \<notin> set u \<Longrightarrow>
   str_split c (t @ u) = butlast (str_split c t) @ [last (str_split c t) @ u]"
proof (induction t)
  case Nil
  then show ?case by (simp add: str_split_no_sep)
next
  case (Cons x t)
  then show ?case
    by (cases "str_split c t") (auto split: list.splits)
qed

lemma endswith_iff: "endswith s p \<longleftrightarrow> (\<exists>t. s = t @ p)"
proof
  assume "endswith s p"
  then obtain zs where "rev s = rev p @ zs" by (auto simp: endswith_def prefix_def)
  then have "s = rev zs @ p" by (metis rev_append rev_rev_ident)
  then show "\<exists>t. s = t @ p" by blast
next
  assume "\<exists>t. s = t @ p"
  then show "endswith s p" by (auto simp: endswith_def)
qed

lemma last_filter_keep:
  "xs \<noteq> [] \<Longrightarrow> P (last xs) \<Longrightarrow> filter P xs \<noteq> [] \<and> last (filter P xs) = last xs"
  by (induction xs rule: rev_induct) auto

lemma parts_last:
  assumes "endswith s (CHR ''.'' # [x])" "x \<noteq> CHR ''/''"
  shows "parts s \<noteq> [] \<and> endswith (last (parts s)) (CHR ''.'' # [x])"
proof -
  from assms(1) obtain t where s: "s = t @ (CHR ''.'' # [x])" by (auto simp: endswith_iff)
  have sp: "str_split CHR ''/'' s
      = butlast (str_split CHR ''/'' t) @ [last (str_split CHR ''/'' t) @ (CHR ''.'' # [x])]"
    unfolding s using assms(2) by (intro str_split_append) auto
  let ?l = "last (str_split CHR ''/'' t) @ (CHR ''.'' # [x])"
  have l: "last (str_split CHR ''/'' s) = ?l" by (simp add: sp)
  have keep: "?l \<noteq> [] \<and> ?l \<noteq> ''.''" by (cases "last (str_split CHR ''/'' t)") auto
  have "filter (\<lambda>c. c \<noteq> [] \<and> c \<noteq> ''.'') (str_split CHR ''/'' s) \<noteq> []
      \<and> last (filter (\<lambda>c. c \<noteq> [] \<and> c \<noteq> ''.'') (str_split CHR ''/'' s))
          = last (str_split CHR ''/'' s)"
    by (rule last_filter_keep) (use keep l in auto)
  then show ?thesis
    by (simp add: parts_def l endswith_iff)
qed

lemma script_path_last:
  "path_join wd (ensure_R_extension f) \<noteq> []
   \<and> (endswith (last (path_join wd (ensure_R_extension f))) ''.R''
        \<or> endswith (last (path_join wd (ensure_R_extension f))) ''.r'')"
proof -
  let ?g = "ensure_R_extension f"
  have "endswith ?g ''.R'' \<or> endswith ?g ''.r''"
    by (auto simp: ensure_R_extension_def endswith_iff)
  then have "parts ?g \<noteq> [] \<and> (endswith (last (parts ?g)) ''.R'' \<or> endswith (last (parts ?g)) ''.r'')"
    using parts_last [of ?g "CHR ''R''"] parts_last [of ?g "CHR ''r''"] by auto
  then show ?thesis by (auto simp: path_join_def)
qed

lemma script_path_not_state:
  "path_join wd (ensure_R_extension f) \<noteq> sd @ [''state.json'']"
  "path_join wd (ensure_R_extension f) \<noteq> sd @ [''state.tmp'']"
  using script_path_last [of wd f] by (auto simp: endswith_def)

text \<open>What a successful handler has done.\<close>

lemma require_workdir_Ok:
  assumes "require_workdir self w body = (Ok d, self', w')"
  obtains wd where "workdir self = Some wd" "fs_exists (files w) wd" "body wd = (Ok d, self', w')"
  using assms
  by (auto simp: require_workdir_def ensure_workdir_set_def split: option.splits if_splits)

lemma set_workdir_Ok:
  assumes "handle_set_workdir e self w path create = (Ok d, self', w')"
  obtains wd fs1 fs2 state fs3 where
    "expand_resolve e path = Inr wd"
    "(if \<not> fs_exists (files w) wd then mkdir_parents (files w) wd else Inr (files w)) = Inr fs1"
    "mkdir_exist_ok fs1 (wd @ [''.pilotr'']) = Inr fs2"
    "self' = self\<lparr>workdir := Some wd, state_dir := Some (wd @ [''.pilotr'']),
                    state_file := Some (wd @ [''.pilotr'', ''state.json''])\<rparr>"
    "load_state self' fs2 = JObj state"
    "save_state e self' fs2
       (JObj (dict_update state
          [(''workdir'', JStr (path_str wd)),
           (''primary_file'', JStr (primary_file self)),
           (''updated_at'', JStr (now e))])) = (None, fs3)"
    "w' = w\<lparr>files := fs3\<rparr>"
  using assms unfolding handle_set_workdir_def Let_def
  by (auto split: sum.splits if_splits json.splits prod.splits option.splits)

lemma create_Ok:
  assumes "handle_create_R_file e self w f ow sc = (Ok d, self', w')"
  obtains wd fs1 fs2 c where "workdir self = Some wd"
    "write_text (files w) (path_join wd (ensure_R_extension f)) c = Inr fs1"
    "register_file e self fs1 (ensure_R_extension f) = (None, fs2)"
    "self' = self" "w' = w\<lparr>files := fs2\<rparr>"
proof -
  from assms obtain wd where wd: "workdir self = Some wd"
    and body: "(let filename = ensure_R_extension f;
           filepath = path_join wd filename
       in if \<not> is_safe_path e self filepath then (Err UNSAFE_PATH [], self, w)
          else if fs_exists (files w) filepath \<and> \<not> ow then (Err FILE_EXISTS [], self, w)
          else (case write_text (files w) filepath (if sc then R_SCAFFOLD else []) of
                  Inl x \<Rightarrow> (Err CREATE_ERROR [], self, w)
                | Inr fs1 \<Rightarrow>
                   (case register_file e self fs1 filename of
                      (Some x, fs2) \<Rightarrow> (Err CREATE_ERROR [], self, w\<lparr>files := fs2\<rparr>)
                    | (None, fs2) \<Rightarrow>
                       (Ok [(''filename'', JStr filename),
                            (''filepath'', JStr (path_str filepath)),
                            (''scaffold_used'', JBool sc)],
                        self, w\<lparr>files := fs2\<rparr>)))) = (Ok d, self', w')"
    unfolding handle_create_R_file_def by (rule require_workdir_Ok)
  from body obtain fs1 where
    fs1: "write_text (files w) (path_join wd (ensure_R_extension f)) (if sc then R_SCAFFOLD else []) = Inr fs1"
    by (cases "write_text (files w) (path_join wd (ensure_R_extension f)) (if sc then R_SCAFFOLD else [])")
       (simp_all add: Let_def split: if_splits)
  from body fs1 obtain fs2 where
    "register_file e self fs1 (ensure_R_extension f) = (None, fs2)" "self' = self"
    "w' = w\<lparr>files := fs2\<rparr>"
    by (cases "register_file e self fs1 (ensure_R_extension f)")
       (auto simp: Let_def split: if_splits option.splits)
  with wd fs1 show ?thesis by (rule that)
qed

lemma write_Ok:
  assumes "handle_write_R_code e self w code (Some f) ow hdr = (Ok d, self', w')" "f \<noteq> []"
  obtains wd fs1 fs2 c where "workdir self = Some wd"
    "write_text (files w) (path_join wd (ensure_R_extension f)) c = Inr fs1"
    "register_file e self fs1 (ensure_R_extension f) = (None, fs2)"
    "self' = self" "w' = w\<lparr>files := fs2\<rparr>"
proof -
  define content0 where "content0 = (if hdr \<and> R_SCAFFOLD \<noteq> [] then R_SCAFFOLD @ code else code)"
  define content where "content = (if content0 \<noteq> [] \<and> \<not> endswith content0 ''\<newline>''
                               then content0 @ ''\<newline>'' else content0)"
  have fn: "ensure_R_extension (filename_or_primary self (Some f)) = ensure_R_extension f"
    using assms(2) by (simp add: filename_or_primary_def)
  from assms(1) obtain wd where wd: "workdir self = Some wd"
    and body: "(let filename = ensure_R_extension (filename_or_primary self (Some f));
           filepath = path_join wd filename
       in if \<not> is_safe_path e self filepath then (Err UNSAFE_PATH [], self, w)
          else if fs_exists (files w) filepath \<and> \<not> ow then (Err FILE_EXISTS [], self, w)
          else (let content0 = (if hdr \<and> R_SCAFFOLD \<noteq> [] then R_SCAFFOLD @ code
                                else code);
                    content = (if content0 \<noteq> [] \<and> \<not> endswith content0 ''\<newline>''
                               then content0 @ ''\<newline>'' else content0)
                in (case write_text (files w) filepath content of
                      Inl x \<Rightarrow> (Err WRITE_ERROR [], self, w)
                    | Inr fs1 \<Rightarrow>
                       (case register_file e self fs1 filename of
                          (Some x, fs2) \<Rightarrow> (Err WRITE_ERROR [], self, w\<lparr>files := fs2\<rparr>)
                        | (None, fs2) \<Rightarrow>
                           (Ok [(''filename'', JStr filename),
                                (''lines_written'', JNum (int (length (splitlines content)))),
                                (''scaffold_used'', JBool hdr)],
                            self, w\<lparr>files := fs2\<rparr>))))) = (Ok d, self', w')"
    unfolding handle_write_R_code_def by (rule require_workdir_Ok)
  from body obtain fs1 where
    fs1: "write_text (files w) (path_join wd (ensure_R_extension f)) content = Inr fs1"
    unfolding fn Let_def content_def [symmetric, unfolded content0_def [symmetric]]
      content0_def [symmetric]
    by (cases "write_text (files w) (path_join wd (ensure_R_extension f)) content")
       (simp_all split: if_splits)
  from body fs1 obtain fs2 where
    "register_file e self fs1 (ensure_R_extension f) = (None, fs2)" "self' = self"
    "w' = w\<lparr>files := fs2\<rparr>"
    unfolding fn Let_def content_def [symmetric, unfolded content0_def [symmetric]]
      content0_def [symmetric]
    by (cases "register_file e self fs1 (ensure_R_extension f)")
       (auto split: if_splits option.splits)
  with wd fs1 show ?thesis by (rule that)
qed


lemma mkdir_parents_other:
  "mkdir_parents fs p = Inr fs1 \<Longrightarrow> \<not> prefix q p \<Longrightarrow> fs1 q = fs q"
  by (auto simp: mkdir_parents_def split: if_splits)

lemma mkdir_exist_ok_result:
  "mkdir_exist_ok fs p = Inr fs2 \<Longrightarrow> fs_is_dir fs2 p \<and> (\<forall>q. q \<noteq> p \<longrightarrow> fs2 q = fs q)"
  by (auto simp: mkdir_exist_ok_def fs_is_dir_def split: if_splits)


lemma triple_eq: "fst x = a \<Longrightarrow> x = (a, fst (snd x), snd (snd x))"
  by (cases x) auto

lemma triple_eq2: "fst x = a \<Longrightarrow> fst (snd x) = b \<Longrightarrow> x = (a, b, snd (snd x))"
  by (cases x) auto

subsection \<open>Selecting a directory\<close>




text \<open>
  Claim C5, as amended. When \<open>set_workdir\<close> succeeds the primary file of the session is
  left as it is (it is \<open>agent.R\<close> as long as no other was selected since the server
  started); and when the state document can be written (no fault, \<open>state.json\<close> and
  \<open>state.tmp\<close> not directories) the persisted document records the new root, that
  primary file and the timestamp of the call.
\<close>

theorem set_workdir_keeps_primary:
  assumes "handle_set_workdir e self w path create = (Ok d, self', w')"
  shows "primary_file self' = primary_file self
       \<and> (\<forall>wd. expand_resolve e path = Inr wd \<and> save_fault e = NoFault
              \<and> \<not> fs_is_dir (files w) (wd @ [''.pilotr'', ''state.json''])
              \<and> \<not> fs_is_dir (files w) (wd @ [''.pilotr'', ''state.tmp'']) \<longrightarrow>
            (\<exists>kvs. load_state self' (files w') = JObj kvs
               \<and> map_of kvs ''workdir'' = Some (JStr (path_str wd))
               \<and> map_of kvs ''primary_file'' = Some (JStr (primary_file self))
               \<and> map_of kvs ''updated_at'' = Some (JStr (now e))))"
proof -
  from assms obtain wd fs1 fs2 state fs3 where
    wd: "expand_resolve e path = Inr wd"
    and fs1: "(if \<not> fs_exists (files w) wd then mkdir_parents (files w) wd else Inr (files w)) = Inr fs1"
    and fs2: "mkdir_exist_ok fs1 (wd @ [''.pilotr'']) = Inr fs2"
    and self': "self' = self\<lparr>workdir := Some wd, state_dir := Some (wd @ [''.pilotr'']),
                    state_file := Some (wd @ [''.pilotr'', ''state.json''])\<rparr>"
    and save: "save_state e self' fs2
       (JObj (dict_update state
          [(''workdir'', JStr (path_str wd)),
           (''primary_file'', JStr (primary_file self)),
           (''updated_at'', JStr (now e))])) = (None, fs3)"
    and w': "w' = w\<lparr>files := fs3\<rparr>"
    by (rule set_workdir_Ok)
  let ?sd = "wd @ [''.pilotr'']"
  let ?doc = "dict_update state
          [(''workdir'', JStr (path_str wd)),
           (''primary_file'', JStr (primary_file self)),
           (''updated_at'', JStr (now e))]"
  have other1: "fs1 q = files w q" if "\<not> prefix q wd" for q
    using fs1 that by (auto dest: mkdir_parents_other split: if_splits)
  have dir2: "fs_is_dir fs2 ?sd" and other2: "\<And>q. q \<noteq> ?sd \<Longrightarrow> fs2 q = fs1 q"
    using mkdir_exist_ok_result [OF fs2] by auto
  have doc: "map_of ?doc ''workdir'' = Some (JStr (path_str wd))
      \<and> map_of ?doc ''primary_file'' = Some (JStr (primary_file self))
      \<and> map_of ?doc ''updated_at'' = Some (JStr (now e))"
    by (simp add: dict_update_def AList.update_conv')
  have "\<exists>kvs. load_state self' (files w') = JObj kvs
               \<and> map_of kvs ''workdir'' = Some (JStr (path_str wd))
               \<and> map_of kvs ''primary_file'' = Some (JStr (primary_file self))
               \<and> map_of kvs ''updated_at'' = Some (JStr (now e))"
    if nf: "save_fault e = NoFault"
      and a: "\<not> fs_is_dir (files w) (wd @ [''.pilotr'', ''state.json''])"
      and b: "\<not> fs_is_dir (files w) (wd @ [''.pilotr'', ''state.tmp''])"
  proof -
    have sf: "state_file self' = Some (?sd @ [''state.json''])" by (simp add: self')
    have a2: "\<not> fs_is_dir fs2 (?sd @ [''state.json''])"
      using a other1 [of "wd @ [''.pilotr'', ''state.json'']"]
        other2 [of "wd @ [''.pilotr'', ''state.json'']"] by (simp add: fs_is_dir_def)
    have b2: "\<not> fs_is_dir fs2 (?sd @ [''state.tmp''])"
      using b other1 [of "wd @ [''.pilotr'', ''state.tmp'']"]
        other2 [of "wd @ [''.pilotr'', ''state.tmp'']"] by (simp add: fs_is_dir_def)
    have "fs3 = (fs2(?sd @ [''state.tmp''] := None))(?sd @ [''state.json''] \<mapsto> File (Json (JObj ?doc)))"
      using save save_state_ok [OF sf nf dir2 b2 a2, of "JObj ?doc"] by simp
    then have "load_state self' (files w') = JObj ?doc"
      by (simp add: load_state_def self' w')
    with doc show ?thesis by blast
  qed
  moreover have "primary_file self' = primary_file self" by (simp add: self')
  ultimately show ?thesis using wd by auto
qed

theorem set_workdir_keeps_primary_witness:
  "primary_file (fst (snd (handle_set_workdir sample_env init_server sample_world ''/w'' True)))
     = ''agent.R''
   \<and> (\<exists>kvs. load_state (fst (snd (handle_set_workdir sample_env init_server sample_world ''/w'' True)))
                (files (snd (snd (handle_set_workdir sample_env init_server sample_world ''/w'' True))))
              = JObj kvs
            \<and> map_of kvs ''workdir'' = Some (JStr ''/w'')
            \<and> map_of kvs ''primary_file'' = Some (JStr ''agent.R'')
            \<and> map_of kvs ''updated_at'' = Some (JStr ''2024-05-01T10:00:00''))"
proof -
  let ?H = "handle_set_workdir sample_env init_server sample_world ''/w'' True"
  have run: "fst ?H = Ok [(''workdir'', JStr ''/w''), (''state_dir'', JStr ''/w/.pilotr''),
           (''primary_file'', JStr ''agent.R'')]"
    by code_simp
  have facts: "expand_resolve sample_env ''/w'' = Inr [''w'']" "save_fault sample_env = NoFault"
    "\<not> fs_is_dir (files sample_world) ([''w''] @ [''.pilotr'', ''state.json''])"
    "\<not> fs_is_dir (files sample_world) ([''w''] @ [''.pilotr'', ''state.tmp''])"
    "path_str [''w''] = ''/w''" "now sample_env = ''2024-05-01T10:00:00''"
    "primary_file init_server = ''agent.R''"
    by code_simp+
  from set_workdir_keeps_primary [OF triple_eq [OF run]] facts
  show ?thesis by auto
qed

text \<open>
  Claim C5 as stated says the primary file is reset to \<open>agent.R\<close>. After \<open>data.R\<close> has
  been selected as primary file in \<open>/w\<close>, a successful \<open>set_workdir\<close> to \<open>/home\<close> leaves
  \<open>data.R\<close> as the primary file.
\<close>

theorem set_workdir_keeps_primary_counterexample:
  "map ok (fst (run_requests sample_env init_server sample_world
      [Set_workdir ''/w'' True, Set_primary_file ''data'', Set_workdir ''/home'' True]))
     = [True, True, True]
   \<and> primary_file (fst (snd (run_requests sample_env init_server sample_world
      [Set_workdir ''/w'' True, Set_primary_file ''data'', Set_workdir ''/home'' True])))
     = ''data.R''
   \<and> workdir (fst (snd (run_requests sample_env init_server sample_world
      [Set_workdir ''/w'' True, Set_primary_file ''data'', Set_workdir ''/home'' True])))
     = Some [''home'']"
  by code_simp

subsection \<open>Renaming a script\<close>





subsection \<open>Registering a file\<close>

lemma write_text_script:
  assumes wt: "write_text fs (path_join wd (ensure_R_extension f)) c = Inr fs1"
    and ready: "store_ready self fs"
  shows "store_ready self fs1 \<and> load_state self fs1 = load_state self fs"
proof -
  let ?p = "path_join wd (ensure_R_extension f)"
  from ready obtain sd where sd: "state_file self = Some (sd @ [''state.json''])"
    "fs_is_dir fs sd" "\<not> fs_is_dir fs (sd @ [''state.tmp''])" "\<not> fs_is_dir fs (sd @ [''state.json''])"
    by (rule store_ready_sd)
  from wt have fs1: "fs1 = fs(?p \<mapsto> File (Raw c))" and nd: "\<not> fs_is_dir fs ?p"
    by (auto simp: write_text_def can_open_w_def split: if_splits)
  have ne: "?p \<noteq> sd @ [''state.json'']" "?p \<noteq> sd @ [''state.tmp'']" "?p \<noteq> sd"
    using script_path_not_state [of wd f sd] nd sd(2) by auto
  show ?thesis
    using sd ne by (auto simp: store_ready_def load_state_def fs1 fs_is_dir_def)
qed

lemma register_in_state_tracked:
  assumes "map_of kvs ''files'' = None \<and> xs = [] \<or> map_of kvs ''files'' = Some (JArr xs)"
  shows "\<exists>kvs'. register_in_state stamp name (JObj kvs) = Inr (JObj kvs')
           \<and> map_of kvs' ''files'' = Some (JArr (if JStr name \<in> set xs then xs else xs @ [JStr name]))"
proof (cases "map_of kvs ''files''")
  case None
  then have "''files'' \<notin> set (map fst kvs)" by (simp add: map_of_eq_None_iff)
  with None assms show ?thesis
    by (simp add: register_in_state_def Let_def py_in_def py_append_def AList.update_conv')
next
  case (Some fl)
  then have "''files'' \<in> set (map fst kvs)"
    by (metis map_of_eq_None_iff option.distinct(1) set_map)
  with Some assms show ?thesis
    by (simp add: register_in_state_def Let_def py_in_def py_append_def AList.update_conv')
qed

lemma register_file_tracked:
  assumes ready: "store_ready self fs" and nf: "save_fault e = NoFault"
    and tr: "tracked_names self fs = Some xs"
    and reg: "register_file e self fs name = (r, fs')"
  shows "store_ready self fs'
       \<and> tracked_names self fs' = Some (if JStr name \<in> set xs then xs else xs @ [JStr name])"
proof -
  from ready obtain sd where sd: "state_file self = Some (sd @ [''state.json''])"
    "fs_is_dir fs sd" "\<not> fs_is_dir fs (sd @ [''state.tmp''])" "\<not> fs_is_dir fs (sd @ [''state.json''])"
    by (rule store_ready_sd)
  from tr obtain kvs where kvs: "load_state self fs = JObj kvs"
    "map_of kvs ''files'' = None \<and> xs = [] \<or> map_of kvs ''files'' = Some (JArr xs)"
    by (auto simp: tracked_names_def split: json.splits option.splits)
  from register_in_state_tracked [OF kvs(2), of "now e" name] obtain kvs' where
    kvs': "register_in_state (now e) name (JObj kvs) = Inr (JObj kvs')"
    "map_of kvs' ''files'' = Some (JArr (if JStr name \<in> set xs then xs else xs @ [JStr name]))"
    by blast
  have "fs' = (fs(sd @ [''state.tmp''] := None))(sd @ [''state.json''] \<mapsto> File (Json (JObj kvs')))"
    using reg kvs(1) kvs'(1) save_state_ok [OF sd(1) nf sd(2,3,4), of "JObj kvs'"]
    by (simp add: register_file_def)
  then show ?thesis
    using sd kvs'(2)
    by (auto simp: store_ready_def tracked_names_def load_state_def fs_is_dir_def)
qed

lemma register_step:
  assumes req: "req = Create_R_file f ow sc \<or> req = Write_R_code c (Some f) ow hdr"
    and f: "f \<noteq> []"
    and run: "call_tool e self w req = (Ok d, self', w')"
    and nf: "save_fault e = NoFault"
    and ready: "store_ready self (files w)"
    and tr: "tracked_names self (files w) = Some xs"
  shows "self' = self \<and> store_ready self (files w')
       \<and> tracked_names self (files w') =
           Some (if JStr (ensure_R_extension f) \<in> set xs then xs
                 else xs @ [JStr (ensure_R_extension f)])"
proof -
  obtain wd fs1 fs2 t where
    wt: "write_text (files w) (path_join wd (ensure_R_extension f)) t = Inr fs1"
    and reg: "register_file e self fs1 (ensure_R_extension f) = (None, fs2)"
    and eq: "self' = self" "w' = w\<lparr>files := fs2\<rparr>"
  proof -
    from req show ?thesis
    proof
      assume "req = Create_R_file f ow sc"
      with run have "handle_create_R_file e self w f ow sc = (Ok d, self', w')" by simp
      then show ?thesis by (rule create_Ok) (rule that)
    next
      assume "req = Write_R_code c (Some f) ow hdr"
      with run have "handle_write_R_code e self w c (Some f) ow hdr = (Ok d, self', w')" by simp
      then show ?thesis using f by (rule write_Ok) (rule that)
    qed
  qed
  from write_text_script [OF wt ready] tr
  have r1: "store_ready self fs1" and t1: "tracked_names self fs1 = Some xs"
    by (simp_all add: tracked_names_def)
  from register_file_tracked [OF r1 nf t1 reg] eq show ?thesis by simp
qed

text \<open>
  Claim C9, as amended. Registration by create and write never adds a name that is
  already in the tracked list. Let two successful calls follow each other, each a create
  or a write for the same filename, with a state document that can be written, and let
  the tracked list be \<open>xs\<close> before. Then the list after the second call is the list
  after the first; the name occurs in it \<open>max 1 k\<close> times, where \<open>k\<close> is the number of its
  occurrences in \<open>xs\<close>, so exactly once whenever it occurred at most once before; and a
  list without duplicates stays without duplicates.
\<close>

theorem registration_idempotent:
  assumes r1: "req1 = Create_R_file f o1 s1 \<or> req1 = Write_R_code c1 (Some f) o1 h1"
    and r2: "req2 = Create_R_file f o2 s2 \<or> req2 = Write_R_code c2 (Some f) o2 h2"
    and f: "f \<noteq> []"
    and run1: "call_tool e1 self w req1 = (Ok d1, self1, w1)"
    and run2: "call_tool e2 self1 w1 req2 = (Ok d2, self2, w2)"
    and nf: "save_fault e1 = NoFault" "save_fault e2 = NoFault"
    and ready: "store_ready self (files w)"
    and tr: "tracked_names self (files w) = Some xs"
  shows "\<exists>ys zs. tracked_names self1 (files w1) = Some ys
           \<and> tracked_names self2 (files w2) = Some zs
           \<and> zs = ys
           \<and> count_list zs (JStr (ensure_R_extension f))
               = max 1 (count_list xs (JStr (ensure_R_extension f)))
           \<and> (count_list xs (JStr (ensure_R_extension f)) \<le> 1 \<longrightarrow>
                count_list zs (JStr (ensure_R_extension f)) = 1)
           \<and> (distinct xs \<longrightarrow> distinct zs)"
proof -
  let ?n = "JStr (ensure_R_extension f)"
  let ?ys = "if ?n \<in> set xs then xs else xs @ [?n]"
  from register_step [OF r1 f run1 nf(1) ready tr]
  have s1: "self1 = self" "store_ready self (files w1)" "tracked_names self (files w1) = Some ?ys"
    by simp_all
  from register_step [OF r2 f run2 [unfolded s1(1)] nf(2) s1(2) s1(3)]
  have s2: "self2 = self" "tracked_names self (files w2) = Some ?ys"
    by (simp_all split: if_splits)
  have cnt: "count_list ?ys ?n = max 1 (count_list xs ?n)"
    by (auto simp: count_list_0_iff max_def dest: count_list_0_iff [THEN iffD1, rotated])
       (metis One_nat_def Suc_leI count_list_0_iff not_gr_zero le_antisym)
  show ?thesis
    using s1 s2 cnt by (intro exI [of _ ?ys]) (auto simp: max_def)
qed

theorem registration_idempotent_witness:
  "\<exists>zs. tracked_names sample_server
          (files (snd (snd (call_tool sample_env sample_server
             (snd (snd (call_tool sample_env sample_server sample_world
                (Create_R_file ''model'' False True))))
             (Write_R_code ''y = 2'' (Some ''model'') True True))))) = Some zs
        \<and> count_list zs (JStr ''model.R'') = 1"
proof -
  let ?r1 = "Create_R_file ''model'' False True"
  let ?r2 = "Write_R_code ''y = 2'' (Some ''model'') True True"
  let ?A = "call_tool sample_env sample_server sample_world ?r1"
  let ?B = "call_tool sample_env sample_server (snd (snd ?A)) ?r2"
  have a: "fst ?A = Ok [(''filename'', JStr ''model.R''), (''filepath'', JStr ''/w/model.R''),
                        (''scaffold_used'', JBool True)]" by code_simp
  have a2: "fst (snd ?A) = sample_server" by code_simp
  have b: "fst ?B = Ok [(''filename'', JStr ''model.R''), (''lines_written'', JNum 2),
                        (''scaffold_used'', JBool True)]" by code_simp
  have b2: "fst (snd ?B) = sample_server" by code_simp
  have runA: "?A = (Ok [(''filename'', JStr ''model.R''), (''filepath'', JStr ''/w/model.R''),
                        (''scaffold_used'', JBool True)], sample_server, snd (snd ?A))"
    by (rule triple_eq2 [OF a a2])
  have runB: "?B = (Ok [(''filename'', JStr ''model.R''), (''lines_written'', JNum 2),
                        (''scaffold_used'', JBool True)], sample_server, snd (snd ?B))"
    by (rule triple_eq2 [OF b b2])
  have nf: "save_fault sample_env = NoFault" by code_simp
  have ready: "store_ready sample_server (files sample_world)" by code_simp
  have tr: "tracked_names sample_server (files sample_world) = Some [JStr ''agent.R'']" by code_simp
  have ext: "ensure_R_extension ''model'' = ''model.R''" by code_simp
  have f: "''model'' \<noteq> []" by simp
  have p1: "?r1 = Create_R_file ''model'' False True
             \<or> ?r1 = Write_R_code [] (Some ''model'') False True" by simp
  have p2: "?r2 = Create_R_file ''model'' True True
             \<or> ?r2 = Write_R_code ''y = 2'' (Some ''model'') True True" by simp
  from registration_idempotent [OF p1 p2 f runA runB nf nf ready tr]
  show ?thesis by (auto simp: ext)
qed

text \<open>
  Claim C9 as stated says the name is in the list exactly once after the two calls.
  A rename with \<open>overwrite\<close> appends the new name without looking for it in the list:
  after \<open>a.R\<close> and \<open>b.R\<close> are created and \<open>a.R\<close> is renamed over \<open>b.R\<close>, the list holds
  \<open>b.R\<close> twice, and a create followed by a write for \<open>b.R\<close>, both successful, leave it
  there twice.
\<close>

theorem registration_duplicate_counterexample:
  "map ok (fst (run_requests sample_env init_server sample_world
      [Set_workdir ''/w'' True, Create_R_file ''a'' False True, Create_R_file ''b'' False True,
       Rename_R_file ''a'' ''b'' True, Create_R_file ''b'' True True,
       Write_R_code ''y = 2'' (Some ''b'') True True]))
     = [True, True, True, True, True, True]
   \<and> tracked_names
        (fst (snd (run_requests sample_env init_server sample_world
           [Set_workdir ''/w'' True, Create_R_file ''a'' False True, Create_R_file ''b'' False True,
            Rename_R_file ''a'' ''b'' True, Create_R_file ''b'' True True,
            Write_R_code ''y = 2'' (Some ''b'') True True])))
        (files (snd (snd (run_requests sample_env init_server sample_world
           [Set_workdir ''/w'' True, Create_R_file ''a'' False True, Create_R_file ''b'' False True,
            Rename_R_file ''a'' ''b'' True, Create_R_file ''b'' True True,
            Write_R_code ''y = 2'' (Some ''b'') True True]))))
     = Some [JStr ''agent.R'', JStr ''b.R'', JStr ''b.R'']"
  by code_simp

end
